theory Spec2Isabelle
  imports Complex_Main
begin

section \<open>Data model (types.js)\<close>

text \<open>
  JavaScript numbers that carry geometry (coordinates, sizes, zoom, pointer positions) are
  modelled as \<^typ>\<open>real\<close>: rounding, NaN and the infinities of IEEE doubles are outside the
  model, and a theorem about the value of a quotient assumes that its divisor, a zoom or a
  recorded start size, is not zero.
  Block ids and z-indices are \<^typ>\<open>int\<close>. Field names are those of the source, prefixed by
  the record they belong to where two records share a name.
\<close>

record block =
  blk_id :: int
  blk_width :: real
  blk_height :: real
  blk_x :: real
  blk_y :: real
  blk_zIndex :: int
  blk_imageSrc :: string
  blk_pageSrc :: string

record original_block_state =
  orig_id :: int
  orig_x :: real
  orig_y :: real
  orig_width :: real
  orig_height :: real

datatype resize_string = NW | NE | SW | SE | N | S | W | E

text \<open>\<open>ResizeState.id\<close> is a block id or the string \<open>"selection-bounding-box"\<close>.\<close>

datatype resize_id = BlockId int | SelectionBoundingBox

record resize_state =
  rs_id :: resize_id
  rs_handle :: resize_string
  rs_startWidth :: real
  rs_startHeight :: real
  rs_startX :: real
  rs_startY :: real
  rs_originalBlocks :: "original_block_state list option"

record drag_state =
  ds_id :: int
  ds_startX :: real
  ds_startY :: real

record selection_box_state =
  sb_startX :: real
  sb_startY :: real
  sb_currentX :: real
  sb_currentY :: real

record page =
  page_id :: string
  page_name :: string
  blocks :: "block list"
  offsetX :: real
  offsetY :: real
  zoom :: real
  mouseX :: real
  mouseY :: real
  cursorStyle :: string
  isViewportDragging :: bool
  isTextEditorFocused :: bool
  isInteractMode :: bool
  selectedIds :: "int list"
  previewSelectedIds :: "int list"
  editingId :: "int option"
  hoveringId :: "int option"
  resizing :: "resize_state option"
  dragStart :: "drag_state option"
  selectionBox :: "selection_box_state option"
  page_state :: string
  css :: string

record memento =
  mem_pages :: "page list"
  mem_currentPageId :: string

record memento_manager =
  undoStack :: "memento list"
  redoStack :: "memento list"
  maxHistorySize :: int

record state =
  pages :: "page list"
  currentPageId :: string
  mementoManager :: memento_manager
  isDarkMode :: bool
  panelsVisible :: bool
  programsPanelWidth :: real
  clipboard :: "block list option"
  programFilter :: string
  notification :: "string option"
  notificationVisible :: bool
  editingPageId :: "string option"
  isShiftPressed :: bool
  isOptionPressed :: bool

section \<open>Constants (constants.js)\<close>

definition MIN_SIZE :: real where
  "MIN_SIZE = 20"

definition RESIZE_CURSORS :: "resize_string \<Rightarrow> string" where
  "RESIZE_CURSORS h =
     (case h of
        NW \<Rightarrow> ''nwse-resize'' | NE \<Rightarrow> ''nesw-resize''
      | SW \<Rightarrow> ''nesw-resize'' | SE \<Rightarrow> ''nwse-resize''
      | N \<Rightarrow> ''ns-resize'' | S \<Rightarrow> ''ns-resize''
      | W \<Rightarrow> ''ew-resize'' | E \<Rightarrow> ''ew-resize'')"

section \<open>Array helpers of the host language\<close>

text \<open>
  \<open>xs.slice(start)\<close>: a negative start counts from the end and is cut off at the
  beginning; a start beyond the end gives the empty array.
\<close>

definition js_slice_from :: "int \<Rightarrow> 'a list \<Rightarrow> 'a list" where
  "js_slice_from start xs =
     (let len = int (length xs);
          k = (if start < 0 then max (len + start) 0 else min start len)
      in drop (nat k) xs)"

text \<open>\<open>[...new Set(xs)]\<close>: the distinct elements in the order of their first occurrence.\<close>

definition js_set_spread :: "'a list \<Rightarrow> 'a list" where
  "js_set_spread xs = rev (remdups (rev xs))"

section \<open>Pages (pages.js)\<close>

definition getCurrentPage :: "state \<Rightarrow> page option" where
  "getCurrentPage s = find (\<lambda>p. page_id p = currentPageId s) (pages s)"

definition getCurrentBlocks :: "state \<Rightarrow> block list" where
  "getCurrentBlocks s = (case getCurrentPage s of Some p \<Rightarrow> blocks p | None \<Rightarrow> [])"

record viewport_data =
  vp_offsetX :: real
  vp_offsetY :: real
  vp_zoom :: real

definition getCurrentViewport :: "state \<Rightarrow> viewport_data" where
  "getCurrentViewport s =
     (case getCurrentPage s of
        Some p \<Rightarrow> \<lparr>vp_offsetX = offsetX p, vp_offsetY = offsetY p, vp_zoom = zoom p\<rparr>
      | None \<Rightarrow> \<lparr>vp_offsetX = 0, vp_offsetY = 0, vp_zoom = 1\<rparr>)"

text \<open>
  \<open>defaultPage\<close>; its id comes from \<open>crypto.randomUUID()\<close> and is a parameter here. The
  program state \<open>{ n: 0 }\<close> of the page is kept as its source text.
\<close>

definition defaultPage :: "string \<Rightarrow> page" where
  "defaultPage uuid =
     \<lparr>page_id = uuid, page_name = ''New Page'', blocks = [],
      offsetX = 0, offsetY = 0, zoom = 1, mouseX = 0, mouseY = 0,
      cursorStyle = ''pointer'', isViewportDragging = False,
      isTextEditorFocused = False, isInteractMode = False,
      selectedIds = [], previewSelectedIds = [], editingId = None, hoveringId = None,
      resizing = None, dragStart = None, selectionBox = None,
      page_state = ''{ n: 0 }'',
      css = ''* { background: lightgrey; height: 100%; width: 100%; margin: 0; padding: 5px; }''\<rparr>"

text \<open>
  \<open>updateCurrentPage(state, pageData)\<close>: the partial page \<open>pageData\<close> that is spread over
  the current page is a function that overwrites the fields it names.
\<close>

definition updateCurrentPage :: "state \<Rightarrow> (page \<Rightarrow> page) \<Rightarrow> state" where
  "updateCurrentPage s pageData =
     s\<lparr>pages := map (\<lambda>p. if page_id p = currentPageId s then pageData p else p) (pages s)\<rparr>"

section \<open>Undo and redo (memento.js)\<close>

definition createMementoManager :: memento_manager where
  "createMementoManager = \<lparr>undoStack = [], redoStack = [], maxHistorySize = 50\<rparr>"

text \<open>
  \<open>createMemento\<close>: the pages are copied with \<open>selectedIds\<close>, \<open>dragStart\<close> and
  \<open>resizing\<close> overwritten. The round trip through JSON that follows makes the copy deep;
  on the values of this model it changes nothing.
\<close>

definition cleanPage :: "page \<Rightarrow> page" where
  "cleanPage p = p\<lparr>selectedIds := [], dragStart := None, resizing := None\<rparr>"

definition createMemento :: "state \<Rightarrow> memento" where
  "createMemento s =
     \<lparr>mem_pages = map cleanPage (pages s), mem_currentPageId = currentPageId s\<rparr>"

definition saveMementoAndReturn :: "state \<Rightarrow> state \<Rightarrow> state" where
  "saveMementoAndReturn prevState newState =
     (let mm = mementoManager prevState;
          newMementoManager =
            mm\<lparr>undoStack := js_slice_from (- maxHistorySize mm) (undoStack mm @ [createMemento prevState]),
               redoStack := []\<rparr>
      in newState\<lparr>mementoManager := newMementoManager\<rparr>)"

definition undoState :: "state \<Rightarrow> state" where
  "undoState s =
     (let mm = mementoManager s in
      if length (undoStack mm) = 0 then s
      else
        let m = last (undoStack mm);
            currentMemento = createMemento s;
            newMementoManager =
              mm\<lparr>undoStack := butlast (undoStack mm),
                 redoStack := redoStack mm @ [currentMemento]\<rparr>
        in s\<lparr>pages := mem_pages m, currentPageId := mem_currentPageId m,
              mementoManager := newMementoManager\<rparr>)"

definition redoState :: "state \<Rightarrow> state" where
  "redoState s =
     (let mm = mementoManager s in
      if length (redoStack mm) = 0 then s
      else
        let m = last (redoStack mm);
            currentMemento = createMemento s;
            newMementoManager =
              mm\<lparr>undoStack := undoStack mm @ [currentMemento],
                 redoStack := butlast (redoStack mm)\<rparr>
        in s\<lparr>pages := mem_pages m, currentPageId := mem_currentPageId m,
              mementoManager := newMementoManager\<rparr>)"

text \<open>\<open>initialState\<close> of app.js, with the id of its one page as a parameter.\<close>

definition initialState :: "string \<Rightarrow> state" where
  "initialState uuid =
     \<lparr>pages = [defaultPage uuid], currentPageId = uuid,
      mementoManager = createMementoManager,
      isDarkMode = False, panelsVisible = True, programsPanelWidth = 300,
      clipboard = None, programFilter = [], notification = None,
      notificationVisible = False, editingPageId = None,
      isShiftPressed = False, isOptionPressed = False\<rparr>"

section \<open>Selection (selection.js)\<close>

text \<open>A rectangle \<open>{ width, height, x, y }\<close>: a bounding box, or what a resize handler proposes.\<close>

record dimensions =
  dim_width :: real
  dim_height :: real
  dim_x :: real
  dim_y :: real

definition isBlockSelected :: "state \<Rightarrow> int \<Rightarrow> bool" where
  "isBlockSelected s blockId =
     (case getCurrentPage s of Some p \<Rightarrow> blockId \<in> set (selectedIds p) | None \<Rightarrow> False)"

definition getSelectedBlocks :: "state \<Rightarrow> block list" where
  "getSelectedBlocks s =
     (case getCurrentPage s of
        None \<Rightarrow> []
      | Some p \<Rightarrow>
          if length (selectedIds p) = 0 then []
          else filter (\<lambda>b. blk_id b \<in> set (selectedIds p)) (getCurrentBlocks s))"

definition getSelectedBlockIds :: "state \<Rightarrow> int list" where
  "getSelectedBlockIds s = (case getCurrentPage s of Some p \<Rightarrow> selectedIds p | None \<Rightarrow> [])"

definition hasSelection :: "state \<Rightarrow> bool" where
  "hasSelection s = (case getCurrentPage s of Some p \<Rightarrow> length (selectedIds p) > 0 | None \<Rightarrow> False)"

definition selectBlock :: "state \<Rightarrow> int \<Rightarrow> state" where
  "selectBlock s blockId = updateCurrentPage s (\<lambda>p. p\<lparr>selectedIds := [blockId], editingId := None\<rparr>)"

definition deselectAllBlocks :: "state \<Rightarrow> state" where
  "deselectAllBlocks s = updateCurrentPage s (\<lambda>p. p\<lparr>selectedIds := [], editingId := None\<rparr>)"

definition getFirstSelectedBlockId :: "state \<Rightarrow> int option" where
  "getFirstSelectedBlockId s =
     (case getSelectedBlockIds s of [] \<Rightarrow> None | i # _ \<Rightarrow> Some i)"

definition addBlockToSelection :: "state \<Rightarrow> int \<Rightarrow> state" where
  "addBlockToSelection s blockId =
     (case getCurrentPage s of
        None \<Rightarrow> s
      | Some currentPage \<Rightarrow>
          let currentSelectedIds = selectedIds currentPage in
          if blockId \<in> set currentSelectedIds then s
          else updateCurrentPage s
                 (\<lambda>p. p\<lparr>selectedIds := currentSelectedIds @ [blockId], editingId := None\<rparr>))"

definition removeBlockFromSelection :: "state \<Rightarrow> int \<Rightarrow> state" where
  "removeBlockFromSelection s blockId =
     (case getCurrentPage s of
        None \<Rightarrow> s
      | Some currentPage \<Rightarrow>
          let newSelectedIds = filter (\<lambda>i. i \<noteq> blockId) (selectedIds currentPage) in
          updateCurrentPage s (\<lambda>p. p\<lparr>selectedIds := newSelectedIds, editingId := None\<rparr>))"

definition toggleBlockSelection :: "state \<Rightarrow> int \<Rightarrow> state" where
  "toggleBlockSelection s blockId =
     (if isBlockSelected s blockId then removeBlockFromSelection s blockId
      else addBlockToSelection s blockId)"

text \<open>
  \<open>getSelectionBoundingBox\<close>: no selected block gives \<open>null\<close>, one gives its own rectangle,
  more give the envelope. The source folds \<open>Math.min\<close> and \<open>Math.max\<close> from the
  infinities; over a list that is not empty that is the fold from its first element.
\<close>

definition getSelectionBoundingBox :: "state \<Rightarrow> dimensions option" where
  "getSelectionBoundingBox s =
     (case getSelectedBlocks s of
        [] \<Rightarrow> None
      | [b] \<Rightarrow> Some \<lparr>dim_width = blk_width b, dim_height = blk_height b, dim_x = blk_x b, dim_y = blk_y b\<rparr>
      | b # bs \<Rightarrow>
          let minX = fold (\<lambda>c m. min m (blk_x c)) bs (blk_x b);
              minY = fold (\<lambda>c m. min m (blk_y c)) bs (blk_y b);
              maxX = fold (\<lambda>c m. max m (blk_x c + blk_width c)) bs (blk_x b + blk_width b);
              maxY = fold (\<lambda>c m. max m (blk_y c + blk_height c)) bs (blk_y b + blk_height b)
          in Some \<lparr>dim_width = maxX - minX, dim_height = maxY - minY, dim_x = minX, dim_y = minY\<rparr>)"

text \<open>
  \<open>calculatePreviewSelection\<close>: the ids of the blocks of the current page that the marquee
  meets; with shift pressed, the present selection followed by them, without repetitions.
\<close>

definition calculatePreviewSelection :: "state \<Rightarrow> selection_box_state \<Rightarrow> int list" where
  "calculatePreviewSelection s box =
     (case getCurrentPage s of
        None \<Rightarrow> []
      | Some currentPage \<Rightarrow>
          let minX = min (sb_startX box) (sb_currentX box);
              maxX = max (sb_startX box) (sb_currentX box);
              minY = min (sb_startY box) (sb_currentY box);
              maxY = max (sb_startY box) (sb_currentY box);
              intersectingBlockIds =
                map blk_id
                  (filter
                    (\<lambda>b. let blockRight = blk_x b + blk_width b;
                             blockBottom = blk_y b + blk_height b
                         in \<not> (blk_x b > maxX \<or> blockRight < minX \<or> blk_y b > maxY \<or> blockBottom < minY))
                    (getCurrentBlocks s));
              currentSelectedIds = selectedIds currentPage
          in if isShiftPressed s then js_set_spread (currentSelectedIds @ intersectingBlockIds)
             else intersectingBlockIds)"

definition handleSelectionBoxComplete :: "state \<Rightarrow> selection_box_state \<Rightarrow> state" where
  "handleSelectionBoxComplete s box =
     (let newSelectedIds = calculatePreviewSelection s box in
      updateCurrentPage s (\<lambda>p. p\<lparr>selectedIds := newSelectedIds, previewSelectedIds := []\<rparr>))"

definition isPointInSelectionBounds :: "state \<Rightarrow> real \<Rightarrow> real \<Rightarrow> bool" where
  "isPointInSelectionBounds s canvasX canvasY =
     (if length (getSelectedBlocks s) \<le> 1 then False
      else case getSelectionBoundingBox s of
             None \<Rightarrow> False
           | Some boundingBox \<Rightarrow>
               canvasX \<ge> dim_x boundingBox \<and>
               canvasX \<le> dim_x boundingBox + dim_width boundingBox \<and>
               canvasY \<ge> dim_y boundingBox \<and>
               canvasY \<le> dim_y boundingBox + dim_height boundingBox)"

section \<open>Resizing (resize.js)\<close>

record percent_event =
  percentX :: real
  percentY :: real

definition RESIZE_HANDLERS :: "resize_string \<Rightarrow> block \<Rightarrow> percent_event \<Rightarrow> dimensions" where
  "RESIZE_HANDLERS h b e =
     (case h of
        NW \<Rightarrow> \<lparr>dim_width = blk_x b + blk_width b - percentX e,
               dim_height = blk_y b + blk_height b - percentY e,
               dim_x = min (blk_x b + blk_width b - MIN_SIZE) (percentX e),
               dim_y = min (blk_y b + blk_height b - MIN_SIZE) (percentY e)\<rparr>
      | NE \<Rightarrow> \<lparr>dim_width = percentX e - blk_x b,
               dim_height = blk_y b + blk_height b - percentY e,
               dim_x = blk_x b,
               dim_y = min (blk_y b + blk_height b - MIN_SIZE) (percentY e)\<rparr>
      | SW \<Rightarrow> \<lparr>dim_width = blk_x b + blk_width b - percentX e,
               dim_height = percentY e - blk_y b,
               dim_x = min (blk_x b + blk_width b - MIN_SIZE) (percentX e),
               dim_y = blk_y b\<rparr>
      | SE \<Rightarrow> \<lparr>dim_width = percentX e - blk_x b,
               dim_height = percentY e - blk_y b,
               dim_x = blk_x b,
               dim_y = blk_y b\<rparr>
      | N \<Rightarrow> \<lparr>dim_width = blk_width b,
              dim_height = blk_y b + blk_height b - percentY e,
              dim_x = blk_x b,
              dim_y = min (blk_y b + blk_height b - MIN_SIZE) (percentY e)\<rparr>
      | S \<Rightarrow> \<lparr>dim_width = blk_width b,
              dim_height = percentY e - blk_y b,
              dim_x = blk_x b,
              dim_y = blk_y b\<rparr>
      | W \<Rightarrow> \<lparr>dim_width = blk_x b + blk_width b - percentX e,
              dim_height = blk_height b,
              dim_x = min (blk_x b + blk_width b - MIN_SIZE) (percentX e),
              dim_y = blk_y b\<rparr>
      | E \<Rightarrow> \<lparr>dim_width = percentX e - blk_x b,
              dim_height = blk_height b,
              dim_x = blk_x b,
              dim_y = blk_y b\<rparr>)"

text \<open>\<open>handle.includes("n")\<close> and \<open>handle.includes("w")\<close> on the handle's name.\<close>

definition includes_n :: "resize_string \<Rightarrow> bool" where
  "includes_n h = (h = NW \<or> h = NE \<or> h = N)"

definition includes_w :: "resize_string \<Rightarrow> bool" where
  "includes_w h = (h = NW \<or> h = SW \<or> h = W)"

definition applyAspectRatioConstraint :: "dimensions \<Rightarrow> block \<Rightarrow> resize_string \<Rightarrow> dimensions" where
  "applyAspectRatioConstraint dims originalBlock h =
     (let originalAspectRatio = blk_width originalBlock / blk_height originalBlock in
      if h \<in> {NW, NE, SW, SE} then
        let constrainedByWidth =
              \<lparr>dim_width = dim_width dims, dim_height = dim_width dims / originalAspectRatio,
               dim_x = dim_x dims, dim_y = dim_y dims\<rparr>;
            constrainedByHeight =
              \<lparr>dim_width = dim_height dims * originalAspectRatio, dim_height = dim_height dims,
               dim_x = dim_x dims, dim_y = dim_y dims\<rparr>;
            widthArea = dim_width constrainedByWidth * dim_height constrainedByWidth;
            heightArea = dim_width constrainedByHeight * dim_height constrainedByHeight;
            useWidthConstraint = (widthArea \<le> heightArea);
            result0 = (if useWidthConstraint then constrainedByWidth else constrainedByHeight);
            result1 = result0\<lparr>dim_width := max MIN_SIZE (dim_width result0)\<rparr>;
            result = result1\<lparr>dim_height := max MIN_SIZE (dim_height result1)\<rparr>
        in if useWidthConstraint then
             (if includes_n h then
                let heightDiff = dim_height result - dim_height dims
                in result\<lparr>dim_y := dim_y dims - heightDiff\<rparr>
              else result)
           else
             (if includes_w h then
                let widthDiff = dim_width result - dim_width dims
                in result\<lparr>dim_x := dim_x dims - widthDiff\<rparr>
              else result)
      else if h \<in> {N, S} then
        let newWidth = dim_height dims * originalAspectRatio;
            widthDiff = newWidth - blk_width originalBlock
        in dims\<lparr>dim_width := max MIN_SIZE newWidth, dim_x := blk_x originalBlock - widthDiff / 2\<rparr>
      else if h \<in> {E, W} then
        let newHeight = dim_width dims / originalAspectRatio;
            heightDiff = newHeight - blk_height originalBlock
        in dims\<lparr>dim_height := max MIN_SIZE newHeight, dim_y := blk_y originalBlock - heightDiff / 2\<rparr>
      else dims)"

text \<open>
  A pointer event as the handlers read it. \<open>canvasLeft\<close> and \<open>canvasTop\<close> are the left and
  top of \<open>document.getElementById("canvas").getBoundingClientRect()\<close> at the time of the
  event: the handlers read them from the document, here they come with the event.
\<close>

record pointer_event =
  button :: int
  shiftKey :: bool
  clientX :: real
  clientY :: real
  canvasLeft :: real
  canvasTop :: real

text \<open>
  \<open>handleResizePointerMove\<close>. Every handle of \<^typ>\<open>resize_string\<close> has a handler, so the
  source's test \<open>!handler\<close> never holds.
\<close>

definition handleResizePointerMove :: "state \<Rightarrow> pointer_event \<Rightarrow> state" where
  "handleResizePointerMove s event =
     (case getCurrentPage s of
        None \<Rightarrow> s
      | Some page \<Rightarrow>
        (case resizing page of
           None \<Rightarrow> s
         | Some r \<Rightarrow>
           let viewport = getCurrentViewport s;
               canvasX = (clientX event - canvasLeft event) / vp_zoom viewport;
               canvasY = (clientY event - canvasTop event) / vp_zoom viewport;
               blocks0 = getCurrentBlocks s
           in case rs_id r of
                SelectionBoundingBox \<Rightarrow>
                  (case rs_originalBlocks r of
                     None \<Rightarrow> s
                   | Some originalBlocks \<Rightarrow>
                       let virtualBoundingBox =
                             \<lparr>blk_id = -1, blk_width = rs_startWidth r, blk_height = rs_startHeight r,
                              blk_x = rs_startX r, blk_y = rs_startY r, blk_zIndex = 0,
                              blk_imageSrc = [], blk_pageSrc = []\<rparr>;
                           newBBox0 = RESIZE_HANDLERS (rs_handle r) virtualBoundingBox
                                        \<lparr>percentX = canvasX, percentY = canvasY\<rparr>;
                           newBBox = (if isShiftPressed s
                                      then applyAspectRatioConstraint newBBox0 virtualBoundingBox (rs_handle r)
                                      else newBBox0);
                           scaleX = dim_width newBBox / rs_startWidth r;
                           scaleY = dim_height newBBox / rs_startHeight r
                       in updateCurrentPage s
                            (\<lambda>p. p\<lparr>blocks :=
                               map (\<lambda>b.
                                 case find (\<lambda>ob. orig_id ob = blk_id b) originalBlocks of
                                   None \<Rightarrow> b
                                 | Some originalBlock \<Rightarrow>
                                     let relativeX = (orig_x originalBlock - rs_startX r) / rs_startWidth r;
                                         relativeY = (orig_y originalBlock - rs_startY r) / rs_startHeight r;
                                         newWidth = max MIN_SIZE (orig_width originalBlock * scaleX);
                                         newHeight = max MIN_SIZE (orig_height originalBlock * scaleY);
                                         newX = dim_x newBBox + relativeX * dim_width newBBox;
                                         newY = dim_y newBBox + relativeY * dim_height newBBox
                                     in b\<lparr>blk_x := newX, blk_y := newY,
                                          blk_width := newWidth, blk_height := newHeight\<rparr>)
                                 blocks0\<rparr>))
              | BlockId i \<Rightarrow>
                  (case find (\<lambda>b. blk_id b = i) blocks0 of
                     None \<Rightarrow> s
                   | Some block0 \<Rightarrow>
                       let newDimensions0 = RESIZE_HANDLERS (rs_handle r) block0
                                              \<lparr>percentX = canvasX, percentY = canvasY\<rparr>;
                           newDimensions =
                             (if isShiftPressed s then
                                let originalBlock =
                                      block0\<lparr>blk_width := rs_startWidth r, blk_height := rs_startHeight r,
                                             blk_x := rs_startX r, blk_y := rs_startY r\<rparr>
                                in applyAspectRatioConstraint newDimensions0 originalBlock (rs_handle r)
                              else newDimensions0);
                           finalWidth = max MIN_SIZE (dim_width newDimensions);
                           finalHeight = max MIN_SIZE (dim_height newDimensions)
                       in updateCurrentPage s
                            (\<lambda>p. p\<lparr>blocks :=
                               map (\<lambda>b. if blk_id b = i
                                         then b\<lparr>blk_x := dim_x newDimensions, blk_y := dim_y newDimensions,
                                                blk_width := finalWidth, blk_height := finalHeight\<rparr>
                                         else b)
                                 blocks0\<rparr>))))"

text \<open>
  The \<open>onpointerdown\<close> of a resize handle of a single block: \<open>blockId\<close> is the id of the
  block the handle sits on and \<open>h\<close> the handle's name, both read from the element. The
  handler stops the propagation of the event.
\<close>

definition ResizeHandle_block_onpointerdown :: "state \<Rightarrow> int \<Rightarrow> resize_string \<Rightarrow> state" where
  "ResizeHandle_block_onpointerdown s blockId h =
     (case find (\<lambda>b. blk_id b = blockId) (getCurrentBlocks s) of
        None \<Rightarrow> s
      | Some block0 \<Rightarrow>
          let selectedState = selectBlock s blockId in
          updateCurrentPage selectedState
            (\<lambda>p. p\<lparr>resizing :=
                      Some \<lparr>rs_id = BlockId blockId, rs_handle = h,
                            rs_startWidth = blk_width block0, rs_startHeight = blk_height block0,
                            rs_startX = blk_x block0, rs_startY = blk_y block0,
                            rs_originalBlocks = None\<rparr>,
                    cursorStyle := RESIZE_CURSORS h\<rparr>))"

text \<open>The \<open>onpointerdown\<close> of a resize handle of the bounding box of a multi-selection.\<close>

definition ResizeHandle_multi_onpointerdown :: "state \<Rightarrow> resize_string \<Rightarrow> state" where
  "ResizeHandle_multi_onpointerdown s h =
     (let selectedBlocks = getSelectedBlocks s in
      case getSelectionBoundingBox s of
        None \<Rightarrow> s
      | Some bbox \<Rightarrow>
          if length selectedBlocks \<le> 1 then s
          else updateCurrentPage s
                 (\<lambda>p. p\<lparr>resizing :=
                           Some \<lparr>rs_id = SelectionBoundingBox, rs_handle = h,
                                 rs_startWidth = dim_width bbox, rs_startHeight = dim_height bbox,
                                 rs_startX = dim_x bbox, rs_startY = dim_y bbox,
                                 rs_originalBlocks =
                                   Some (map (\<lambda>b. \<lparr>orig_id = blk_id b, orig_x = blk_x b, orig_y = blk_y b,
                                                    orig_width = blk_width b, orig_height = blk_height b\<rparr>)
                                           selectedBlocks)\<rparr>,
                         cursorStyle := RESIZE_CURSORS h\<rparr>))"

section \<open>Blocks (block.js)\<close>

text \<open>
  The \<open>onpointerdown\<close> of a block. \<open>block0\<close> and \<open>isMultiSelect\<close> are what the handler
  closes over: the block it was rendered for, and whether more than one block was selected
  then. The second component of the result tells whether \<open>event.stopPropagation()\<close> ran.
\<close>

definition block_onpointerdown :: "block \<Rightarrow> bool \<Rightarrow> state \<Rightarrow> pointer_event \<Rightarrow> state \<times> bool" where
  "block_onpointerdown block0 isMultiSelect s event =
     (case getCurrentPage s of
        None \<Rightarrow> (s, False)
      | Some currentPage \<Rightarrow>
          if isMultiSelect then (s, False)
          else if editingId currentPage = Some (blk_id block0) \<or> isInteractMode currentPage then (s, True)
          else if shiftKey event then (toggleBlockSelection s (blk_id block0), True)
          else
            let selectedState = selectBlock s (blk_id block0) in
            (updateCurrentPage selectedState
               (\<lambda>p. p\<lparr>dragStart :=
                         Some \<lparr>ds_id = blk_id block0, ds_startX = blk_x block0, ds_startY = blk_y block0\<rparr>\<rparr>),
             True))"

section \<open>The viewport and its pointer handlers (viewport.js)\<close>

definition getCanvasCoordinates :: "pointer_event \<Rightarrow> state \<Rightarrow> real \<times> real" where
  "getCanvasCoordinates event s =
     (let viewport = getCurrentViewport s;
          canvasX = (clientX event - canvasLeft event) / vp_zoom viewport;
          canvasY = (clientY event - canvasTop event) / vp_zoom viewport
      in (canvasX, canvasY))"

definition handleMiddleMouseDown :: "state \<Rightarrow> state" where
  "handleMiddleMouseDown s =
     (let deselectedState = deselectAllBlocks s in
      updateCurrentPage deselectedState
        (\<lambda>p. p\<lparr>isViewportDragging := True, cursorStyle := ''grabbing''\<rparr>))"

text \<open>
  \<open>handleDragStart\<close> returns either a new state or the very object it was given, and its
  caller tells the two apart by \<open>dragResult !== state\<close>. \<open>None\<close> stands for the second.
\<close>

definition handleDragStart :: "state \<Rightarrow> real \<Rightarrow> real \<Rightarrow> bool \<Rightarrow> state option" where
  "handleDragStart s canvasX canvasY isShiftKey =
     (let isInSelectionBounds = isPointInSelectionBounds s canvasX canvasY in
      if isInSelectionBounds \<and> \<not> isShiftKey then
        (case getSelectedBlocks s of
           [] \<Rightarrow> None
         | referenceBlock # _ \<Rightarrow>
             Some (updateCurrentPage s
               (\<lambda>p. p\<lparr>dragStart :=
                         Some \<lparr>ds_id = blk_id referenceBlock, ds_startX = blk_x referenceBlock,
                               ds_startY = blk_y referenceBlock\<rparr>\<rparr>)))
      else None)"

definition handleSelectionBoxStart :: "state \<Rightarrow> real \<Rightarrow> real \<Rightarrow> bool \<Rightarrow> state" where
  "handleSelectionBoxStart s canvasX canvasY isShiftKey =
     updateCurrentPage s
       (\<lambda>p. p\<lparr>selectionBox :=
                 Some \<lparr>sb_startX = canvasX, sb_startY = canvasY,
                       sb_currentX = canvasX, sb_currentY = canvasY\<rparr>,
               selectedIds :=
                 (if isShiftKey
                  then (case getCurrentPage s of Some cp \<Rightarrow> selectedIds cp | None \<Rightarrow> [])
                  else []),
               previewSelectedIds := [],
               editingId := None\<rparr>)"

definition onpointerdown :: "state \<Rightarrow> pointer_event \<Rightarrow> state" where
  "onpointerdown s event =
     (if button event = 1 then handleMiddleMouseDown s
      else
        let (canvasX, canvasY) = getCanvasCoordinates event s;
            isInSelectionBounds = isPointInSelectionBounds s canvasX canvasY;
            dragResult =
              (if isInSelectionBounds \<and> \<not> shiftKey event
               then handleDragStart s canvasX canvasY (shiftKey event)
               else None)
        in case dragResult of
             Some r \<Rightarrow> r
           | None \<Rightarrow>
               if button event = 0
               then handleSelectionBoxStart s canvasX canvasY (shiftKey event)
               else s)"

definition handleBlockDrag :: "state \<Rightarrow> real \<Rightarrow> real \<Rightarrow> state" where
  "handleBlockDrag s dx dy =
     (let viewport = getCurrentViewport s;
          adjustedDx = dx / vp_zoom viewport;
          adjustedDy = dy / vp_zoom viewport;
          blocks0 = getCurrentBlocks s;
          selectedBlockIds = getSelectedBlockIds s
      in updateCurrentPage s
           (\<lambda>p. p\<lparr>blocks :=
              map (\<lambda>b. if blk_id b \<in> set selectedBlockIds
                        then b\<lparr>blk_x := blk_x b + adjustedDx, blk_y := blk_y b + adjustedDy\<rparr>
                        else b)
                blocks0\<rparr>))"

definition handleViewportDrag :: "state \<Rightarrow> real \<Rightarrow> real \<Rightarrow> state" where
  "handleViewportDrag s dx dy =
     (let viewport = getCurrentViewport s in
      updateCurrentPage s
        (\<lambda>p. p\<lparr>offsetX := vp_offsetX viewport + dx, offsetY := vp_offsetY viewport + dy\<rparr>))"

definition handleSelectionBoxMove :: "state \<Rightarrow> pointer_event \<Rightarrow> state" where
  "handleSelectionBoxMove s event =
     (case getCurrentPage s of
        None \<Rightarrow> s
      | Some currentPage \<Rightarrow>
        (case selectionBox currentPage of
           None \<Rightarrow> s
         | Some box \<Rightarrow>
             let (canvasX, canvasY) = getCanvasCoordinates event s;
                 updatedSelectionBox = box\<lparr>sb_currentX := canvasX, sb_currentY := canvasY\<rparr>;
                 previewSelectedIds0 = calculatePreviewSelection s updatedSelectionBox
             in updateCurrentPage s
                  (\<lambda>p. p\<lparr>selectionBox := Some updatedSelectionBox,
                          previewSelectedIds := previewSelectedIds0\<rparr>)))"

definition onpointermove :: "state \<Rightarrow> pointer_event \<Rightarrow> state" where
  "onpointermove s event =
     (case getCurrentPage s of
        None \<Rightarrow> s
      | Some currentPage \<Rightarrow>
          let dx = clientX event - mouseX currentPage;
              dy = clientY event - mouseY currentPage;
              s1 = updateCurrentPage s (\<lambda>p. p\<lparr>mouseX := clientX event, mouseY := clientY event\<rparr>)
          in if resizing currentPage \<noteq> None then handleResizePointerMove s1 event
             else if dragStart currentPage \<noteq> None \<and> editingId currentPage = None
               then handleBlockDrag s1 dx dy
             else if isViewportDragging currentPage then handleViewportDrag s1 dx dy
             else if selectionBox currentPage \<noteq> None then handleSelectionBoxMove s1 event
             else s1)"

text \<open>
  \<open>handleDragCompletion\<close>. \<open>hasAnyBlockMoved\<close> compares the reference block with its
  recorded start by \<open>!==\<close>, and every other selected block through the delta of the
  reference block against \<open>0.1\<close>. On numbers \<open>v || 0\<close> is \<open>v\<close>; a missing reference block
  gives \<open>0\<close>.
\<close>

definition hasAnyBlockMoved :: "block list \<Rightarrow> int list \<Rightarrow> drag_state \<Rightarrow> bool" where
  "hasAnyBlockMoved blocks0 selectedBlockIds ds =
     (let draggedBlock = find (\<lambda>b. blk_id b = ds_id ds) blocks0 in
      list_ex
        (\<lambda>blockId.
           case find (\<lambda>b. blk_id b = blockId) blocks0 of
             None \<Rightarrow> False
           | Some block0 \<Rightarrow>
               if blockId = ds_id ds
               then blk_x block0 \<noteq> ds_startX ds \<or> blk_y block0 \<noteq> ds_startY ds
               else
                 let dragDeltaX = ds_startX ds - (case draggedBlock of Some d \<Rightarrow> blk_x d | None \<Rightarrow> 0);
                     dragDeltaY = ds_startY ds - (case draggedBlock of Some d \<Rightarrow> blk_y d | None \<Rightarrow> 0);
                     originalX = blk_x block0 + dragDeltaX;
                     originalY = blk_y block0 + dragDeltaY
                 in \<bar>blk_x block0 - originalX\<bar> > 1 / 10 \<or> \<bar>blk_y block0 - originalY\<bar> > 1 / 10)
        selectedBlockIds)"

definition handleDragCompletion :: "state \<Rightarrow> state \<Rightarrow> state" where
  "handleDragCompletion s newState =
     (case getCurrentPage s of
        None \<Rightarrow> newState
      | Some currentPage \<Rightarrow>
        (case dragStart currentPage of
           None \<Rightarrow> newState
         | Some ds \<Rightarrow>
             let blocks0 = getCurrentBlocks s;
                 selectedBlockIds = getSelectedBlockIds s
             in case find (\<lambda>b. blk_id b = ds_id ds) blocks0 of
                  None \<Rightarrow> newState
                | Some draggedBlock \<Rightarrow>
                    if hasAnyBlockMoved blocks0 selectedBlockIds ds then
                      let dragDeltaX = blk_x draggedBlock - ds_startX ds;
                          dragDeltaY = blk_y draggedBlock - ds_startY ds;
                          beforeDragState =
                            updateCurrentPage s
                              (\<lambda>p. p\<lparr>blocks :=
                                 map (\<lambda>b. if blk_id b \<in> set selectedBlockIds
                                           then b\<lparr>blk_x := blk_x b - dragDeltaX, blk_y := blk_y b - dragDeltaY\<rparr>
                                           else b)
                                   blocks0\<rparr>)
                      in saveMementoAndReturn beforeDragState newState
                    else newState))"

definition hasAnyBlockChanged :: "block list \<Rightarrow> original_block_state list \<Rightarrow> bool" where
  "hasAnyBlockChanged blocks0 originalBlocks =
     list_ex
       (\<lambda>originalBlock.
          case find (\<lambda>b. blk_id b = orig_id originalBlock) blocks0 of
            None \<Rightarrow> False
          | Some currentBlock \<Rightarrow>
              \<bar>blk_x currentBlock - orig_x originalBlock\<bar> > 1 / 10 \<or>
              \<bar>blk_y currentBlock - orig_y originalBlock\<bar> > 1 / 10 \<or>
              \<bar>blk_width currentBlock - orig_width originalBlock\<bar> > 1 / 10 \<or>
              \<bar>blk_height currentBlock - orig_height originalBlock\<bar> > 1 / 10)
       originalBlocks"

definition handleResizeCompletion :: "state \<Rightarrow> state \<Rightarrow> state" where
  "handleResizeCompletion s newState =
     (case getCurrentPage s of
        None \<Rightarrow> newState
      | Some currentPage \<Rightarrow>
        (case resizing currentPage of
           None \<Rightarrow> newState
         | Some r \<Rightarrow>
             let blocks0 = getCurrentBlocks s in
             case rs_id r of
               SelectionBoundingBox \<Rightarrow>
                 (case rs_originalBlocks r of
                    None \<Rightarrow> newState
                  | Some originalBlocks \<Rightarrow>
                      if hasAnyBlockChanged blocks0 originalBlocks then
                        let beforeResizeState =
                              updateCurrentPage s
                                (\<lambda>p. p\<lparr>blocks :=
                                   map (\<lambda>b. case find (\<lambda>orig. orig_id orig = blk_id b) originalBlocks of
                                               Some originalBlock \<Rightarrow>
                                                 b\<lparr>blk_x := orig_x originalBlock, blk_y := orig_y originalBlock,
                                                   blk_width := orig_width originalBlock,
                                                   blk_height := orig_height originalBlock\<rparr>
                                             | None \<Rightarrow> b)
                                     blocks0\<rparr>)
                        in saveMementoAndReturn beforeResizeState newState
                      else newState)
             | BlockId i \<Rightarrow>
                 (case find (\<lambda>b. blk_id b = i) blocks0 of
                    None \<Rightarrow> newState
                  | Some resizedBlock \<Rightarrow>
                      if blk_width resizedBlock \<noteq> rs_startWidth r \<or>
                         blk_height resizedBlock \<noteq> rs_startHeight r \<or>
                         blk_x resizedBlock \<noteq> rs_startX r \<or>
                         blk_y resizedBlock \<noteq> rs_startY r
                      then
                        let beforeResizeState =
                              updateCurrentPage s
                                (\<lambda>p. p\<lparr>blocks :=
                                   map (\<lambda>b. if blk_id b = blk_id resizedBlock
                                             then b\<lparr>blk_width := rs_startWidth r, blk_height := rs_startHeight r,
                                                    blk_x := rs_startX r, blk_y := rs_startY r\<rparr>
                                             else b)
                                     blocks0\<rparr>)
                        in saveMementoAndReturn beforeResizeState newState
                      else newState)))"

definition onpointerup :: "state \<Rightarrow> state" where
  "onpointerup s =
     (case getCurrentPage s of
        None \<Rightarrow> s
      | Some currentPage \<Rightarrow>
          let newState0 =
                updateCurrentPage s
                  (\<lambda>p. p\<lparr>isViewportDragging := False, resizing := None, dragStart := None,
                          cursorStyle := ''default''\<rparr>);
              newState =
                (case selectionBox currentPage of
                   Some box \<Rightarrow>
                     updateCurrentPage (handleSelectionBoxComplete newState0 box)
                       (\<lambda>p. p\<lparr>selectionBox := None\<rparr>)
                 | None \<Rightarrow> newState0)
          in if dragStart currentPage \<noteq> None then handleDragCompletion s newState
             else if resizing currentPage \<noteq> None then handleResizeCompletion s newState
             else newState)"

text \<open>
  A wheel event. \<open>rectLeft\<close> and \<open>rectTop\<close> are the left and top of
  \<open>event.currentTarget.getBoundingClientRect()\<close>, the viewport element.
  \<open>wheel_clientX\<close> and \<open>wheel_clientY\<close> are \<open>clientX\<close> and \<open>clientY\<close> of the
  event, the place of the pointer when the wheel turns (the names \<open>clientX\<close> and
  \<open>clientY\<close> belong to \<^typ>\<open>pointer_event\<close>). \<open>onwheel\<close> does not read them: it
  takes the place of the pointer from \<open>page.mouseX\<close> and \<open>page.mouseY\<close>, which the last
  \<open>onpointermove\<close> on that page wrote.
\<close>

record wheel_event =
  deltaX :: real
  deltaY :: real
  ctrlKey :: bool
  metaKey :: bool
  rectLeft :: real
  rectTop :: real
  wheel_clientX :: real
  wheel_clientY :: real

definition onwheel :: "state \<Rightarrow> wheel_event \<Rightarrow> state" where
  "onwheel s event =
     (let isTrackpad = (\<bar>deltaY event\<bar> < 50 \<and> \<not> ctrlKey event) in
      case getCurrentPage s of
        None \<Rightarrow> s
      | Some page \<Rightarrow>
          if isTrackpad then
            updateCurrentPage s
              (\<lambda>p. p\<lparr>offsetX := offsetX page - deltaX event, offsetY := offsetY page - deltaY event\<rparr>)
          else if ctrlKey event \<or> metaKey event then
            let zoomDelta = - deltaY event * (1 / 100);
                newZoom = max (1 / 10) (min 5 (zoom page + zoomDelta));
                relativeMouseX = mouseX page - rectLeft event;
                relativeMouseY = mouseY page - rectTop event;
                zoomRatio = newZoom / zoom page;
                newOffsetX = relativeMouseX - (relativeMouseX - offsetX page) * zoomRatio;
                newOffsetY = relativeMouseY - (relativeMouseY - offsetY page) * zoomRatio
            in updateCurrentPage s
                 (\<lambda>p. p\<lparr>zoom := newZoom, offsetX := newOffsetX, offsetY := newOffsetY\<rparr>)
          else s)"

text \<open>
  The pointer events of the canvas as the document delivers them. A pointer-down lands on
  the empty viewport, on a block, on a resize handle of a block or on a resize handle of
  the bounding box of a multi-selection; a handler of an inner element runs first, and the
  viewport's \<open>onpointerdown\<close> runs after it unless the inner handler stopped the
  propagation. The handler of a block closes over the block and over \<open>isMultiSelect\<close> of
  the state it was rendered from, which is the current state. An event on a block that the
  current page does not have cannot be delivered and leaves the state as it is.
\<close>

datatype event =
    ViewportPointerDown pointer_event
  | BlockPointerDown int pointer_event
  | BlockHandlePointerDown int resize_string
  | MultiHandlePointerDown resize_string
  | PointerMove pointer_event
  | PointerUp
  | Wheel wheel_event

fun dispatch :: "state \<Rightarrow> event \<Rightarrow> state" where
  "dispatch s (ViewportPointerDown e) = onpointerdown s e"
| "dispatch s (BlockPointerDown i e) =
     (case find (\<lambda>b. blk_id b = i) (getCurrentBlocks s) of
        None \<Rightarrow> s
      | Some b \<Rightarrow>
          let r = block_onpointerdown b (length (getSelectedBlocks s) > 1) s e
          in if snd r then fst r else onpointerdown (fst r) e)"
| "dispatch s (BlockHandlePointerDown i h) = ResizeHandle_block_onpointerdown s i h"
| "dispatch s (MultiHandlePointerDown h) = ResizeHandle_multi_onpointerdown s h"
| "dispatch s (PointerMove e) = onpointermove s e"
| "dispatch s PointerUp = onpointerup s"
| "dispatch s (Wheel e) = onwheel s e"

definition run_events :: "event list \<Rightarrow> state \<Rightarrow> state" where
  "run_events es s = fold (\<lambda>e t. dispatch t e) es s"

section \<open>Histories of committed mutations\<close>

text \<open>
  Every committing operation of the source ends in \<open>saveMementoAndReturn(prev, next)\<close>,
  where \<open>prev\<close> is the state it was given or \<open>updateCurrentPage\<close> of it (the geometry
  before a drag or a resize), and \<open>next\<close> is computed from the state it was given. A
  mutation is this pair: what is spread over the current page to get \<open>prev\<close>, and the
  function that computes \<open>next\<close>.
\<close>

type_synonym mutation = "(page \<Rightarrow> page) \<times> (state \<Rightarrow> state)"

definition commit :: "mutation \<Rightarrow> state \<Rightarrow> state" where
  "commit m s = saveMementoAndReturn (updateCurrentPage s (fst m)) (snd m s)"

definition commits :: "mutation list \<Rightarrow> state \<Rightarrow> state" where
  "commits ms s = fold commit ms s"

text \<open>The snapshots that a sequence of mutations takes, oldest first.\<close>

fun snapshots :: "mutation list \<Rightarrow> state \<Rightarrow> memento list" where
  "snapshots [] s = []"
| "snapshots (m # ms) s = createMemento (updateCurrentPage s (fst m)) # snapshots ms (commit m s)"

datatype history_op = Mutate mutation | Undo | Redo

fun apply_op :: "history_op \<Rightarrow> state \<Rightarrow> state" where
  "apply_op (Mutate m) s = commit m s"
| "apply_op Undo s = undoState s"
| "apply_op Redo s = redoState s"

definition run_ops :: "history_op list \<Rightarrow> state \<Rightarrow> state" where
  "run_ops ops s = fold apply_op ops s"

definition history_inv :: "memento_manager \<Rightarrow> bool" where
  "history_inv mm \<longleftrightarrow>
     maxHistorySize mm = 50 \<and> length (undoStack mm) + length (redoStack mm) \<le> 50"



text \<open>\<open>renamePage\<close> of pages.js, a committed mutation used in the examples below.\<close>

definition renamePage :: "state \<Rightarrow> string \<Rightarrow> string \<Rightarrow> state" where
  "renamePage s pageId newName =
     (let newState = s\<lparr>pages := map (\<lambda>p. if page_id p = pageId then p\<lparr>page_name := newName\<rparr> else p) (pages s)\<rparr>
      in saveMementoAndReturn s newState)"

section \<open>Predicates of the verified properties\<close>

text \<open>The three gesture records of a page, and how many of them are set.\<close>

definition noGesture :: "page \<Rightarrow> bool" where
  "noGesture p \<longleftrightarrow> resizing p = None \<and> dragStart p = None \<and> selectionBox p = None"

definition gestureCount :: "page \<Rightarrow> nat" where
  "gestureCount p =
     (if resizing p = None then 0 else 1) + (if dragStart p = None then 0 else 1) +
     (if selectionBox p = None then 0 else 1)"

definition atMostOneGesture :: "state \<Rightarrow> bool" where
  "atMostOneGesture s = (case getCurrentPage s of None \<Rightarrow> True | Some p \<Rightarrow> gestureCount p \<le> 1)"

definition idle :: "state \<Rightarrow> bool" where
  "idle s = (case getCurrentPage s of None \<Rightarrow> True | Some p \<Rightarrow> noGesture p)"

text \<open>The current pages of \<open>s\<close> and \<open>t\<close> have the same gesture records set.\<close>

definition sameGestures :: "state \<Rightarrow> state \<Rightarrow> bool" where
  "sameGestures s t =
     (case getCurrentPage s of
        None \<Rightarrow> getCurrentPage t = None
      | Some p \<Rightarrow>
          (case getCurrentPage t of
             None \<Rightarrow> False
           | Some q \<Rightarrow>
               (resizing q = None) = (resizing p = None) \<and>
               (dragStart q = None) = (dragStart p = None) \<and>
               (selectionBox q = None) = (selectionBox p = None)))"

text \<open>
  A sequence of events is well bracketed when no pointer-down follows another pointer-down
  without a pointer-up in between. The flag tells whether a pointer is down already.
\<close>

fun well_bracketed :: "bool \<Rightarrow> event list \<Rightarrow> bool" where
  "well_bracketed down [] = True"
| "well_bracketed down (PointerUp # es) = well_bracketed False es"
| "well_bracketed down (PointerMove e # es) = well_bracketed down es"
| "well_bracketed down (Wheel e # es) = well_bracketed down es"
| "well_bracketed down (ev # es) = (\<not> down \<and> well_bracketed True es)"

text \<open>
  The pages of \<open>t\<close> are those of \<open>s\<close> except for the pages whose id is the current page id
  of \<open>s\<close>.
\<close>

definition otherPagesUnchanged :: "state \<Rightarrow> state \<Rightarrow> bool" where
  "otherPagesUnchanged s t \<longleftrightarrow>
     currentPageId t = currentPageId s \<and> length (pages t) = length (pages s) \<and>
     (\<forall>i < length (pages s). page_id (pages s ! i) \<noteq> currentPageId s \<longrightarrow> pages t ! i = pages s ! i)"

section \<open>States of the examples\<close>

definition blockA :: block where
  "blockA = \<lparr>blk_id = 1, blk_width = 100, blk_height = 100, blk_x = 0, blk_y = 0, blk_zIndex = 1,
             blk_imageSrc = ''a.png'', blk_pageSrc = ''Cat''\<rparr>"

definition blockB :: block where
  "blockB = \<lparr>blk_id = 2, blk_width = 50, blk_height = 50, blk_x = 100, blk_y = 0, blk_zIndex = 2,
             blk_imageSrc = ''b.png'', blk_pageSrc = ''Dog''\<rparr>"

text \<open>The initial state with the given blocks on its one page.\<close>

definition stateWithBlocks :: "block list \<Rightarrow> state" where
  "stateWithBlocks bs = (initialState ''p1'')\<lparr>pages := [(defaultPage ''p1'')\<lparr>blocks := bs\<rparr>]\<rparr>"

text \<open>A left-button pointer event at a client position, with the canvas at the origin.\<close>

definition pointerAt :: "real \<Rightarrow> real \<Rightarrow> pointer_event" where
  "pointerAt px py =
     \<lparr>button = 0, shiftKey = False, clientX = px, clientY = py, canvasLeft = 0, canvasTop = 0\<rparr>"


text \<open>Two pages, the first of them current.\<close>

definition twoPageState :: state where
  "twoPageState =
     (initialState ''p1'')\<lparr>pages :=
        [(defaultPage ''p1'')\<lparr>blocks := [blockA]\<rparr>,
         (defaultPage ''p2'')\<lparr>blocks := [blockB], selectedIds := [2]\<rparr>]\<rparr>"

section \<open>Notions of the resize, zoom and marquee properties\<close>

text \<open>
  The bounding box \<open>newBBox\<close> that the group branch of \<open>handleResizePointerMove\<close> computes:
  the handler of the handle applied to the bounding box recorded at the start of the
  gesture, constrained to its aspect ratio when shift is pressed.
\<close>

definition virtualBoundingBox :: "resize_state \<Rightarrow> block" where
  "virtualBoundingBox r =
     \<lparr>blk_id = -1, blk_width = rs_startWidth r, blk_height = rs_startHeight r,
      blk_x = rs_startX r, blk_y = rs_startY r, blk_zIndex = 0,
      blk_imageSrc = [], blk_pageSrc = []\<rparr>"

definition newBBoxOf :: "state \<Rightarrow> resize_state \<Rightarrow> pointer_event \<Rightarrow> dimensions" where
  "newBBoxOf s r event =
     (let viewport = getCurrentViewport s;
          canvasX = (clientX event - canvasLeft event) / vp_zoom viewport;
          canvasY = (clientY event - canvasTop event) / vp_zoom viewport;
          newBBox0 = RESIZE_HANDLERS (rs_handle r) (virtualBoundingBox r)
                       \<lparr>percentX = canvasX, percentY = canvasY\<rparr>
      in if isShiftPressed s
         then applyAspectRatioConstraint newBBox0 (virtualBoundingBox r) (rs_handle r)
         else newBBox0)"

text \<open>
  The dimensions \<open>newDimensions\<close> that the single-block branch of \<open>handleResizePointerMove\<close>
  computes for the block \<open>block0\<close>, before the final floor at \<open>MIN_SIZE\<close>.
\<close>

definition newDimensionsOf :: "state \<Rightarrow> resize_state \<Rightarrow> block \<Rightarrow> pointer_event \<Rightarrow> dimensions" where
  "newDimensionsOf s r block0 event =
     (let viewport = getCurrentViewport s;
          canvasX = (clientX event - canvasLeft event) / vp_zoom viewport;
          canvasY = (clientY event - canvasTop event) / vp_zoom viewport;
          newDimensions0 = RESIZE_HANDLERS (rs_handle r) block0
                             \<lparr>percentX = canvasX, percentY = canvasY\<rparr>
      in if isShiftPressed s
         then applyAspectRatioConstraint newDimensions0
                (block0\<lparr>blk_width := rs_startWidth r, blk_height := rs_startHeight r,
                        blk_x := rs_startX r, blk_y := rs_startY r\<rparr>)
                (rs_handle r)
         else newDimensions0)"

text \<open>The blocks that a resize gesture resizes: the one block, or the blocks of the group.\<close>

definition isResized :: "resize_state \<Rightarrow> block \<Rightarrow> bool" where
  "isResized r b =
     (case rs_id r of
        BlockId i \<Rightarrow> blk_id b = i
      | SelectionBoundingBox \<Rightarrow>
          (case rs_originalBlocks r of
             None \<Rightarrow> False
           | Some originalBlocks \<Rightarrow> blk_id b \<in> orig_id ` set originalBlocks))"

definition hasMinSize :: "block \<Rightarrow> bool" where
  "hasMinSize b \<longleftrightarrow> blk_width b \<ge> MIN_SIZE \<and> blk_height b \<ge> MIN_SIZE"

text \<open>
  Following the words of the specification (4.1), \<open>screenToCanvas\<close>: the canvas point shown
  at a point of the viewport element, for a canvas drawn translated by the offset and
  scaled by the zoom. The source does this conversion inline, in
  \<open>getViewportCenterCoordinates\<close>.
\<close>

definition spec_screenToCanvas :: "real \<times> real \<Rightarrow> viewport_data \<Rightarrow> real \<times> real" where
  "spec_screenToCanvas pt vp =
     ((fst pt - vp_offsetX vp) / vp_zoom vp, (snd pt - vp_offsetY vp) / vp_zoom vp)"

text \<open>
  Following the words of the specification (4.1), \<open>rectsIntersect\<close> as geometry: the closed
  rectangle of a block and the closed rectangle that a marquee spans have a point in common.
\<close>

definition spec_rectsIntersect :: "block \<Rightarrow> selection_box_state \<Rightarrow> bool" where
  "spec_rectsIntersect b box \<longleftrightarrow>
     (\<exists>px py.
        blk_x b \<le> px \<and> px \<le> blk_x b + blk_width b \<and>
        blk_y b \<le> py \<and> py \<le> blk_y b + blk_height b \<and>
        min (sb_startX box) (sb_currentX box) \<le> px \<and> px \<le> max (sb_startX box) (sb_currentX box) \<and>
        min (sb_startY box) (sb_currentY box) \<le> py \<and> py \<le> max (sb_startY box) (sb_currentY box))"

text \<open>The marquee that spans the rectangle \<open>{x, y, width, height}\<close>.\<close>

definition marqueeOf :: "real \<Rightarrow> real \<Rightarrow> real \<Rightarrow> real \<Rightarrow> selection_box_state" where
  "marqueeOf x0 y0 w h = \<lparr>sb_startX = x0, sb_startY = y0, sb_currentX = x0 + w, sb_currentY = y0 + h\<rparr>"

text \<open>
  Blocks A and B selected together and the south-east handle of their bounding box pressed:
  click on A, shift-click on B, press the handle.
\<close>

definition groupResizeState :: state where
  "groupResizeState =
     run_events
       [BlockPointerDown 1 (pointerAt 10 10), PointerUp,
        BlockPointerDown 2 ((pointerAt 110 10)\<lparr>shiftKey := True\<rparr>), PointerUp,
        MultiHandlePointerDown SE]
       (stateWithBlocks [blockA, blockB])"

text \<open>Block A with the north-west handle pressed.\<close>

definition singleResizeState :: state where
  "singleResizeState =
     run_events [BlockPointerDown 1 (pointerAt 10 10), PointerUp, BlockHandlePointerDown 1 NW]
       (stateWithBlocks [blockA])"

text \<open>The empty page with the pointer last seen at (100, 50).\<close>

definition pointerSeenState :: state where
  "pointerSeenState = run_events [PointerMove (pointerAt 100 50)] (stateWithBlocks [])"

text \<open>The block of the marquee example of the specification.\<close>

definition blockC :: block where
  "blockC = \<lparr>blk_id = 7, blk_width = 20, blk_height = 20, blk_x = 10, blk_y = 10, blk_zIndex = 1,
             blk_imageSrc = ''c.png'', blk_pageSrc = ''Owl''\<rparr>"

section \<open>Notions of the commit on pointer-up\<close>


text \<open>
  A gesture is a pointer-down, the pointer-moves that follow it, and a pointer-up. Its net
  change is read off the blocks of the current page as they were before the pointer-down,
  \<open>before\<close>, and the current page \<open>q\<close> at the pointer-up. When a group is being resized it
  is a block whose x, y, width or height is more than 0.1 away from what it was; for every
  other gesture it is any difference at all between the two lists of blocks.
\<close>

definition movedBeyondEpsilon :: "block \<Rightarrow> block \<Rightarrow> bool" where
  "movedBeyondEpsilon b c \<longleftrightarrow>
     \<bar>blk_x c - blk_x b\<bar> > 1 / 10 \<or> \<bar>blk_y c - blk_y b\<bar> > 1 / 10 \<or>
     \<bar>blk_width c - blk_width b\<bar> > 1 / 10 \<or> \<bar>blk_height c - blk_height b\<bar> > 1 / 10"



text \<open>
  What the pointer-moves of a gesture do to a block. A drag adds the same vector to every
  selected block. A resize changes the geometry of the blocks it resizes and nothing else.
\<close>

definition shiftBlock :: "int list \<Rightarrow> real \<Rightarrow> real \<Rightarrow> block \<Rightarrow> block" where
  "shiftBlock sel ax ay b =
     (if blk_id b \<in> set sel then b\<lparr>blk_x := blk_x b + ax, blk_y := blk_y b + ay\<rparr> else b)"

definition sameButGeometry :: "block \<Rightarrow> block \<Rightarrow> bool" where
  "sameButGeometry b c \<longleftrightarrow>
     c = b\<lparr>blk_x := blk_x c, blk_y := blk_y c, blk_width := blk_width c, blk_height := blk_height c\<rparr>"

definition resizedFrom :: "resize_state \<Rightarrow> block \<Rightarrow> block \<Rightarrow> bool" where
  "resizedFrom r b c \<longleftrightarrow> sameButGeometry b c \<and> (isResized r b \<or> c = b)"

text \<open>The geometry of a block as \<open>originalBlocks\<close> records it.\<close>

definition originalOf :: "block \<Rightarrow> original_block_state" where
  "originalOf b =
     \<lparr>orig_id = blk_id b, orig_x = blk_x b, orig_y = blk_y b,
      orig_width = blk_width b, orig_height = blk_height b\<rparr>"






section \<open>Undo and redo: lemmas\<close>

lemma cleanPage_idem: "cleanPage (cleanPage p) = cleanPage p"
  by (simp add: cleanPage_def)

lemma map_cleanPage_idem: "map cleanPage (map cleanPage ps) = map cleanPage ps"
  by (simp add: cleanPage_idem)

lemma undoState_empty: "undoStack (mementoManager s) = [] \<Longrightarrow> undoState s = s"
  by (simp add: undoState_def)

lemma redoState_empty: "redoStack (mementoManager s) = [] \<Longrightarrow> redoState s = s"
  by (simp add: redoState_def)

lemma undoState_nonempty:
  assumes "undoStack (mementoManager s) \<noteq> []"
  shows "redoStack (mementoManager (undoState s)) = redoStack (mementoManager s) @ [createMemento s]"
    and "undoStack (mementoManager (undoState s)) = butlast (undoStack (mementoManager s))"
    and "maxHistorySize (mementoManager (undoState s)) = maxHistorySize (mementoManager s)"
  using assms by (simp_all add: undoState_def Let_def)

lemma redoState_nonempty:
  assumes "redoStack (mementoManager s) \<noteq> []"
  shows "pages (redoState s) = mem_pages (last (redoStack (mementoManager s)))"
    and "currentPageId (redoState s) = mem_currentPageId (last (redoStack (mementoManager s)))"
    and "redoStack (mementoManager (redoState s)) = butlast (redoStack (mementoManager s))"
    and "undoStack (mementoManager (redoState s)) = undoStack (mementoManager s) @ [createMemento s]"
    and "maxHistorySize (mementoManager (redoState s)) = maxHistorySize (mementoManager s)"
  using assms by (simp_all add: redoState_def Let_def)

lemma undo_funpow_empty: "undoStack (mementoManager s) = [] \<Longrightarrow> (undoState ^^ k) s = s"
  by (induction k) (simp_all add: undoState_empty)

lemma redo_funpow_empty: "redoStack (mementoManager s) = [] \<Longrightarrow> (redoState ^^ k) s = s"
  by (induction k) (simp_all add: redoState_empty)

lemma undo_funpow_length:
  "length (undoStack (mementoManager ((undoState ^^ k) s))) = length (undoStack (mementoManager s)) - k"
proof (induction k)
  case 0
  show ?case by simp
next
  case (Suc k)
  let ?t = "(undoState ^^ k) s"
  show ?case
  proof (cases "undoStack (mementoManager ?t) = []")
    case True
    with Suc show ?thesis by (simp add: undoState_empty)
  next
    case False
    with Suc show ?thesis by (simp add: undoState_nonempty(2))
  qed
qed

lemma undo_redo_exact:
  "k \<le> length (undoStack (mementoManager s)) \<Longrightarrow>
   createMemento ((redoState ^^ k) ((undoState ^^ k) s)) = createMemento s \<and>
   redoStack (mementoManager ((redoState ^^ k) ((undoState ^^ k) s))) = redoStack (mementoManager s) \<and>
   length (undoStack (mementoManager ((redoState ^^ k) ((undoState ^^ k) s)))) =
     length (undoStack (mementoManager s))"
proof (induction k arbitrary: s)
  case 0
  show ?case by simp
next
  case (Suc k)
  let ?u = "undoState s"
  let ?t' = "(redoState ^^ k) ((undoState ^^ k) ?u)"
  from Suc.prems have ne: "undoStack (mementoManager s) \<noteq> []" by auto
  have lenu: "length (undoStack (mementoManager ?u)) = length (undoStack (mementoManager s)) - 1"
    by (simp add: undoState_nonempty(2)[OF ne])
  with Suc.prems have "k \<le> length (undoStack (mementoManager ?u))" by simp
  from Suc.IH[OF this]
  have cm: "createMemento ?t' = createMemento ?u"
    and rs: "redoStack (mementoManager ?t') = redoStack (mementoManager ?u)"
    and ln: "length (undoStack (mementoManager ?t')) = length (undoStack (mementoManager ?u))"
    by simp_all
  have rs': "redoStack (mementoManager ?t') = redoStack (mementoManager s) @ [createMemento s]"
    using rs undoState_nonempty(1)[OF ne] by simp
  then have ne': "redoStack (mementoManager ?t') \<noteq> []" by simp
  have eq: "(redoState ^^ Suc k) ((undoState ^^ Suc k) s) = redoState ?t'"
    by (simp add: funpow_swap1)
  have p: "pages (redoState ?t') = map cleanPage (pages s)"
    using redoState_nonempty(1)[OF ne'] rs' by (simp add: createMemento_def)
  have c: "currentPageId (redoState ?t') = currentPageId s"
    using redoState_nonempty(2)[OF ne'] rs' by (simp add: createMemento_def)
  have r: "redoStack (mementoManager (redoState ?t')) = redoStack (mementoManager s)"
    using redoState_nonempty(3)[OF ne'] rs' by simp
  have l: "length (undoStack (mementoManager (redoState ?t'))) = length (undoStack (mementoManager s))"
    using redoState_nonempty(4)[OF ne'] ln lenu ne by (simp add: Suc_leI)
  show ?case
    unfolding eq using p c r l by (simp add: createMemento_def cleanPage_idem)
qed

lemma undo_then_redo_restores:
  assumes "redoStack (mementoManager s) = []"
  shows "createMemento ((redoState ^^ n) ((undoState ^^ n) s)) = createMemento s"
proof -
  let ?len = "length (undoStack (mementoManager s))"
  let ?k = "min n ?len"
  have "length (undoStack (mementoManager ((undoState ^^ ?k) s))) = ?len - ?k"
    by (rule undo_funpow_length)
  have u: "(undoState ^^ n) s = (undoState ^^ ?k) s"
  proof (cases "n \<le> ?len")
    case True
    then show ?thesis by (simp add: min_def)
  next
    case False
    then have k: "?k = ?len" by (simp add: min_def)
    have e: "undoStack (mementoManager ((undoState ^^ ?len) s)) = []"
      using undo_funpow_length[of ?len s] by simp
    have "n = (n - ?len) + ?len" using False by simp
    then have "(undoState ^^ n) s = (undoState ^^ (n - ?len)) ((undoState ^^ ?len) s)"
      by (metis funpow_add o_apply)
    then show ?thesis using e k by (simp add: undo_funpow_empty)
  qed
  have kl: "?k \<le> ?len" by simp
  note ex = undo_redo_exact[OF kl]
  have r0: "redoStack (mementoManager ((redoState ^^ ?k) ((undoState ^^ ?k) s))) = []"
    using ex assms by simp
  have "n = (n - ?k) + ?k" by simp
  then have "(redoState ^^ n) ((undoState ^^ ?k) s) =
      (redoState ^^ (n - ?k)) ((redoState ^^ ?k) ((undoState ^^ ?k) s))"
    by (metis funpow_add o_apply)
  then have "(redoState ^^ n) ((undoState ^^ n) s) = (redoState ^^ ?k) ((undoState ^^ ?k) s)"
    using r0 u by (simp add: redo_funpow_empty)
  then show ?thesis using ex by simp
qed

lemma commit_redoStack: "redoStack (mementoManager (commit m s)) = []"
  by (simp add: commit_def saveMementoAndReturn_def Let_def)

lemma commits_redoStack: "ms \<noteq> [] \<Longrightarrow> redoStack (mementoManager (commits ms s)) = []"
  by (cases ms rule: rev_cases) (simp_all add: commits_def commit_redoStack)

lemma updateCurrentPage_id: "updateCurrentPage s (\<lambda>p. p) = s"
  by (simp add: updateCurrentPage_def)

lemma renamePage_commit:
  "renamePage s pageId newName =
     commit (\<lambda>p. p, \<lambda>t. t\<lparr>pages := map (\<lambda>p. if page_id p = pageId then p\<lparr>page_name := newName\<rparr> else p) (pages t)\<rparr>) s"
  by (simp add: renamePage_def commit_def updateCurrentPage_id)

lemma js_slice_from_last: "0 < n \<Longrightarrow> js_slice_from (- int n) xs = drop (length xs - n) xs"
  by (simp add: js_slice_from_def Let_def max_def nat_diff_distrib')

lemma js_slice_50: "js_slice_from (- 50) xs = drop (length xs - 50) xs"
  using js_slice_from_last[of 50 xs] by simp

lemma updateCurrentPage_mementoManager [simp]:
  "mementoManager (updateCurrentPage s f) = mementoManager s"
  by (simp add: updateCurrentPage_def)

lemma commit_manager:
  "mementoManager (commit m s) =
     (mementoManager s)\<lparr>undoStack := js_slice_from (- maxHistorySize (mementoManager s))
         (undoStack (mementoManager s) @ [createMemento (updateCurrentPage s (fst m))]),
       redoStack := []\<rparr>"
  by (simp add: commit_def saveMementoAndReturn_def Let_def)

lemma history_inv_commit: "history_inv (mementoManager s) \<Longrightarrow> history_inv (mementoManager (commit m s))"
  by (simp add: history_inv_def commit_manager js_slice_50)

lemma history_inv_undo:
  assumes "history_inv (mementoManager s)"
  shows "history_inv (mementoManager (undoState s))"
proof (cases "undoStack (mementoManager s)" rule: rev_cases)
  case Nil
  with assms show ?thesis by (simp add: undoState_empty)
next
  case (snoc ys y)
  then have "undoStack (mementoManager s) \<noteq> []" by simp
  from undoState_nonempty[OF this] assms snoc show ?thesis
    by (simp add: history_inv_def)
qed

lemma history_inv_redo:
  assumes "history_inv (mementoManager s)"
  shows "history_inv (mementoManager (redoState s))"
proof (cases "redoStack (mementoManager s)" rule: rev_cases)
  case Nil
  with assms show ?thesis by (simp add: redoState_empty)
next
  case (snoc ys y)
  then have "redoStack (mementoManager s) \<noteq> []" by simp
  from redoState_nonempty[OF this] assms snoc show ?thesis
    by (simp add: history_inv_def)
qed

lemma history_inv_apply_op: "history_inv (mementoManager s) \<Longrightarrow> history_inv (mementoManager (apply_op x s))"
  by (cases x) (simp_all add: history_inv_commit history_inv_undo history_inv_redo)

lemma history_inv_run_ops: "history_inv (mementoManager s) \<Longrightarrow> history_inv (mementoManager (run_ops ops s))"
  unfolding run_ops_def
  by (induction ops arbitrary: s) (simp_all add: history_inv_apply_op)

lemma history_inv_initial: "history_inv createMementoManager"
  by (simp add: history_inv_def createMementoManager_def)

lemma drop_last_append:
  "drop (length (drop (length xs - n) xs @ ys) - n) (drop (length xs - n) xs @ ys) =
   drop (length (xs @ ys) - n) (xs @ (ys :: 'a list))"
  by (cases "length xs \<le> n") (auto simp: add.commute)

lemma commit_maxHistorySize: "maxHistorySize (mementoManager (commit m s)) = maxHistorySize (mementoManager s)"
  by (simp add: commit_manager)

lemma js_slice_50_append:
  "js_slice_from (- 50) (js_slice_from (- 50) xs @ ys) = js_slice_from (- 50) (xs @ ys)"
  by (simp only: js_slice_50 drop_last_append)

lemma commits_undoStack:
  "maxHistorySize (mementoManager s) = 50 \<Longrightarrow> length (undoStack (mementoManager s)) \<le> 50 \<Longrightarrow>
   undoStack (mementoManager (commits ms s)) =
     js_slice_from (- 50) (undoStack (mementoManager s) @ snapshots ms s)"
proof (induction ms arbitrary: s)
  case Nil
  then show ?case by (simp add: commits_def js_slice_50)
next
  case (Cons m ms)
  let ?c = "createMemento (updateCurrentPage s (fst m))"
  have u: "undoStack (mementoManager (commit m s)) =
             js_slice_from (- 50) (undoStack (mementoManager s) @ [?c])"
    using Cons.prems by (simp add: commit_manager)
  have 1: "maxHistorySize (mementoManager (commit m s)) = 50"
    using Cons.prems by (simp add: commit_maxHistorySize)
  have 2: "length (undoStack (mementoManager (commit m s))) \<le> 50"
    unfolding u by (simp add: js_slice_50)
  have "undoStack (mementoManager (commits (m # ms) s)) =
          undoStack (mementoManager (commits ms (commit m s)))"
    by (simp add: commits_def)
  also have "\<dots> = js_slice_from (- 50)
                      (js_slice_from (- 50) (undoStack (mementoManager s) @ [?c]) @
                       snapshots ms (commit m s))"
    using Cons.IH[OF 1 2] by (simp only: u)
  also have "\<dots> = js_slice_from (- 50)
                      ((undoStack (mementoManager s) @ [?c]) @ snapshots ms (commit m s))"
    by (rule js_slice_50_append)
  finally show ?case by simp
qed

lemma length_snapshots: "length (snapshots ms s) = length ms"
  by (induction ms arbitrary: s) simp_all

section \<open>Undo and redo: the round trip\<close>

text \<open>
  Claim C1. From any state and for any sequence of committed mutations, undoing as many
  times as there are mutations and then redoing as many times gives a state whose pages
  and current page id are those of the state after the mutations, up to the fields that
  a snapshot resets on every page (\<open>selectedIds\<close>, \<open>dragStart\<close>, \<open>resizing\<close>). Undo and
  redo on an empty stack do nothing, so the statement needs no bound on the number of
  mutations.
\<close>

theorem undo_redo_round_trip:
  "map cleanPage (pages ((redoState ^^ length ms) ((undoState ^^ length ms) (commits ms s0)))) =
     map cleanPage (pages (commits ms s0)) \<and>
   currentPageId ((redoState ^^ length ms) ((undoState ^^ length ms) (commits ms s0))) =
     currentPageId (commits ms s0)"
proof (cases "ms = []")
  case True
  then show ?thesis by simp
next
  case False
  then have "redoStack (mementoManager (commits ms s0)) = []"
    by (rule commits_redoStack)
  from undo_then_redo_restores[OF this, of "length ms"] show ?thesis
    by (simp add: createMemento_def)
qed

theorem undo_redo_round_trip_witness:
  "map cleanPage (pages ((redoState ^^ 2) ((undoState ^^ 2)
       (renamePage (renamePage (initialState ''p1'') ''p1'' ''a'') ''p1'' ''b'')))) =
     [(defaultPage ''p1'')\<lparr>page_name := ''b''\<rparr>]"
proof -
  let ?m = "\<lambda>n. (\<lambda>p::page. p, \<lambda>t. t\<lparr>pages := map (\<lambda>p. if page_id p = ''p1'' then p\<lparr>page_name := n\<rparr> else p) (pages t)\<rparr>)"
  have c: "commits [?m ''a'', ?m ''b''] (initialState ''p1'') =
           renamePage (renamePage (initialState ''p1'') ''p1'' ''a'') ''p1'' ''b''"
    by (simp add: commits_def renamePage_commit)
  have p: "map cleanPage (pages (renamePage (renamePage (initialState ''p1'') ''p1'' ''a'') ''p1'' ''b'')) =
           [(defaultPage ''p1'')\<lparr>page_name := ''b''\<rparr>]"
    by (simp add: renamePage_def saveMementoAndReturn_def initialState_def defaultPage_def cleanPage_def Let_def)
  from undo_redo_round_trip[of "[?m ''a'', ?m ''b'']" "initialState ''p1''"] show ?thesis
    unfolding c p by (simp add: numeral_2_eq_2)
qed

section \<open>Undo and redo: the bound of the undo stack\<close>

text \<open>
  Claim C4. Starting from the manager that \<open>createMementoManager\<close> returns, the undo stack
  never holds more than 50 mementos under any interleaving of commits, undos and redos.
  After a sequence of commits the stack is the last 50 of the snapshots taken before each
  mutation, and the redo stack is empty; after 51 commits it holds exactly 50, all but the
  oldest.
\<close>

theorem undo_stack_bound:
  assumes "mementoManager s0 = createMementoManager"
  shows "length (undoStack (mementoManager (run_ops ops s0))) \<le> 50 \<and>
         undoStack (mementoManager (commits ms s0)) = drop (length ms - 50) (snapshots ms s0) \<and>
         (ms \<noteq> [] \<longrightarrow> redoStack (mementoManager (commits ms s0)) = []) \<and>
         (length ms = 51 \<longrightarrow>
            length (undoStack (mementoManager (commits ms s0))) = 50 \<and>
            undoStack (mementoManager (commits ms s0)) = tl (snapshots ms s0))"
proof -
  have "history_inv (mementoManager (run_ops ops s0))"
    using assms by (simp add: history_inv_run_ops history_inv_initial)
  then have a: "length (undoStack (mementoManager (run_ops ops s0))) \<le> 50"
    by (simp add: history_inv_def)
  have "maxHistorySize (mementoManager s0) = 50"
    using assms by (simp add: createMementoManager_def)
  from commits_undoStack[OF this, of ms] assms
  have b: "undoStack (mementoManager (commits ms s0)) = drop (length ms - 50) (snapshots ms s0)"
    by (simp add: createMementoManager_def js_slice_50 length_snapshots)
  have c: "ms \<noteq> [] \<longrightarrow> redoStack (mementoManager (commits ms s0)) = []"
    by (simp add: commits_redoStack)
  have d: "length ms = 51 \<longrightarrow>
            length (undoStack (mementoManager (commits ms s0))) = 50 \<and>
            undoStack (mementoManager (commits ms s0)) = tl (snapshots ms s0)"
    using b by (simp add: length_snapshots drop_Suc)
  from a b c d show ?thesis by blast
qed

theorem undo_stack_bound_witness:
  "mementoManager (initialState ''p1'') = createMementoManager \<and>
   length (undoStack (mementoManager
     (run_ops (replicate 60 (Mutate (\<lambda>p. p, \<lambda>t. t)) @ [Undo, Undo, Redo, Mutate (\<lambda>p. p, \<lambda>t. t), Redo])
        (initialState ''p1'')))) \<le> 50 \<and>
   length (undoStack (mementoManager (commits (replicate 51 (\<lambda>p. p, \<lambda>t. t)) (initialState ''p1'')))) = 50 \<and>
   undoStack (mementoManager (commits (replicate 51 (\<lambda>p. p, \<lambda>t. t)) (initialState ''p1''))) =
     tl (snapshots (replicate 51 (\<lambda>p. p, \<lambda>t. t)) (initialState ''p1''))"
proof -
  let ?m = "(\<lambda>p::page. p, \<lambda>t::state. t)"
  let ?ops = "replicate 60 (Mutate ?m) @ [Undo, Undo, Redo, Mutate ?m, Redo]"
  have h: "mementoManager (initialState ''p1'') = createMementoManager"
    by (simp add: initialState_def)
  have len: "length (replicate 51 ?m) = 51" by simp
  note t = undo_stack_bound[OF h, of ?ops "replicate 51 ?m"]
  from t have a: "length (undoStack (mementoManager (run_ops ?ops (initialState ''p1'')))) \<le> 50"
    by (rule conjunct1)
  from t len have d:
    "length (undoStack (mementoManager (commits (replicate 51 ?m) (initialState ''p1'')))) = 50 \<and>
     undoStack (mementoManager (commits (replicate 51 ?m) (initialState ''p1''))) =
       tl (snapshots (replicate 51 ?m) (initialState ''p1''))"
    by blast
  from h a d show ?thesis by blast
qed

section \<open>The current page under \<open>updateCurrentPage\<close>\<close>

lemma currentPageId_updateCurrentPage [simp]:
  "currentPageId (updateCurrentPage s f) = currentPageId s"
  by (simp add: updateCurrentPage_def)

lemma find_page_update:
  assumes "\<And>p. page_id (f p) = page_id p"
  shows "find (\<lambda>p. page_id p = c) (map (\<lambda>p. if page_id p = c then f p else p) ps) =
         map_option f (find (\<lambda>p. page_id p = c) ps)"
  by (induction ps) (simp_all add: assms)

lemma getCurrentPage_update:
  "(\<And>p. page_id (f p) = page_id p) \<Longrightarrow>
   getCurrentPage (updateCurrentPage s f) = map_option f (getCurrentPage s)"
  by (simp add: getCurrentPage_def updateCurrentPage_def find_page_update)

lemma getCurrentPage_saveMemento [simp]:
  "getCurrentPage (saveMementoAndReturn a b) = getCurrentPage b"
  by (simp add: getCurrentPage_def saveMementoAndReturn_def Let_def)

lemma opu_refl [simp]: "otherPagesUnchanged s s"
  by (simp add: otherPagesUnchanged_def)

lemma opu_trans:
  "otherPagesUnchanged s t \<Longrightarrow> otherPagesUnchanged t u \<Longrightarrow> otherPagesUnchanged s u"
  by (auto simp: otherPagesUnchanged_def)

lemma opu_update [simp]: "otherPagesUnchanged s (updateCurrentPage s f)"
  by (simp add: otherPagesUnchanged_def updateCurrentPage_def)

lemma opu_update_step [simp]:
  "otherPagesUnchanged s t \<Longrightarrow> otherPagesUnchanged s (updateCurrentPage t f)"
  by (rule opu_trans[OF _ opu_update])

lemma opu_saveMemento [simp]:
  "otherPagesUnchanged s b \<Longrightarrow> otherPagesUnchanged s (saveMementoAndReturn a b)"
  by (simp add: otherPagesUnchanged_def saveMementoAndReturn_def Let_def)

lemma opu_selectBlock [simp]: "otherPagesUnchanged s (selectBlock s i)"
  by (simp add: selectBlock_def)

lemma opu_deselectAllBlocks [simp]: "otherPagesUnchanged s (deselectAllBlocks s)"
  by (simp add: deselectAllBlocks_def)

lemma opu_toggleBlockSelection [simp]: "otherPagesUnchanged s (toggleBlockSelection s i)"
  by (simp add: toggleBlockSelection_def addBlockToSelection_def removeBlockFromSelection_def Let_def
      split: option.splits)

lemma opu_handleResizePointerMove [simp]:
  "otherPagesUnchanged s t \<Longrightarrow> otherPagesUnchanged s (handleResizePointerMove t e)"
  by (simp add: handleResizePointerMove_def Let_def split: option.splits resize_id.splits)

lemma opu_onpointerdown [simp]: "otherPagesUnchanged s t \<Longrightarrow> otherPagesUnchanged s (onpointerdown t e)"
  by (simp add: onpointerdown_def handleMiddleMouseDown_def handleDragStart_def
      handleSelectionBoxStart_def deselectAllBlocks_def Let_def
      split: option.splits list.splits prod.splits)

lemma opu_onpointermove [simp]: "otherPagesUnchanged s (onpointermove s e)"
  by (simp add: onpointermove_def handleBlockDrag_def handleViewportDrag_def handleSelectionBoxMove_def
      Let_def getCurrentPage_update split: option.splits prod.splits)

lemma opu_onpointerup [simp]: "otherPagesUnchanged s (onpointerup s)"
  by (simp add: onpointerup_def handleDragCompletion_def handleResizeCompletion_def
      handleSelectionBoxComplete_def Let_def split: option.splits resize_id.splits)

lemma opu_onwheel [simp]: "otherPagesUnchanged s (onwheel s e)"
  by (simp add: onwheel_def Let_def split: option.splits)

lemma opu_block_onpointerdown [simp]:
  "otherPagesUnchanged s (fst (block_onpointerdown b m s e))"
  by (simp add: block_onpointerdown_def selectBlock_def split: option.splits)

lemma opu_handles [simp]:
  "otherPagesUnchanged s (ResizeHandle_block_onpointerdown s i h)"
  "otherPagesUnchanged s (ResizeHandle_multi_onpointerdown s h)"
  by (simp_all add: ResizeHandle_block_onpointerdown_def ResizeHandle_multi_onpointerdown_def
      selectBlock_def Let_def split: option.splits)

lemma opu_dispatch: "otherPagesUnchanged s (dispatch s ev)"
  by (cases ev) (simp_all add: Let_def split: option.splits)

lemma opu_run_events: "otherPagesUnchanged s (run_events es s)"
proof (induction es arbitrary: s)
  case Nil
  show ?case by (simp add: run_events_def)
next
  case (Cons ev es)
  have "otherPagesUnchanged (dispatch s ev) (run_events es (dispatch s ev))" by (rule Cons)
  with opu_dispatch[of s ev] show ?case
    by (simp add: run_events_def opu_trans)
qed

section \<open>Gesture records: lemmas\<close>

lemma idle_atMostOne: "idle s \<Longrightarrow> atMostOneGesture s"
  by (auto simp: idle_def atMostOneGesture_def noGesture_def gestureCount_def split: option.splits)

lemma sameGestures_atMostOne: "sameGestures s t \<Longrightarrow> atMostOneGesture s \<Longrightarrow> atMostOneGesture t"
  by (auto simp: sameGestures_def atMostOneGesture_def gestureCount_def split: option.splits if_splits)

lemma sameGestures_idle: "sameGestures s t \<Longrightarrow> idle s \<Longrightarrow> idle t"
  by (auto simp: sameGestures_def idle_def noGesture_def split: option.splits)

lemma sameGestures_refl [simp]: "sameGestures s s"
  by (simp add: sameGestures_def split: option.splits)

lemma sameGestures_update:
  assumes "\<And>p. page_id (f p) = page_id p"
    and "\<And>p. (resizing (f p) = None) = (resizing p = None)"
    and "\<And>p. (dragStart (f p) = None) = (dragStart p = None)"
    and "\<And>p. (selectionBox (f p) = None) = (selectionBox p = None)"
  shows "sameGestures s (updateCurrentPage s f)"
  using assms by (simp add: sameGestures_def getCurrentPage_update split: option.splits)

lemma sameGestures_trans: "sameGestures s t \<Longrightarrow> sameGestures t u \<Longrightarrow> sameGestures s u"
  by (auto simp: sameGestures_def split: option.splits)

lemma sameGestures_handleResizePointerMove: "sameGestures s (handleResizePointerMove s e)"
  by (simp add: handleResizePointerMove_def Let_def sameGestures_update
      split: option.splits resize_id.splits)

lemma sameGestures_handleBlockDrag: "sameGestures s (handleBlockDrag s dx dy)"
  by (simp add: handleBlockDrag_def Let_def sameGestures_update)

lemma sameGestures_handleViewportDrag: "sameGestures s (handleViewportDrag s dx dy)"
  by (simp add: handleViewportDrag_def Let_def sameGestures_update)

lemma sameGestures_handleSelectionBoxMove: "sameGestures s (handleSelectionBoxMove s e)"
  by (auto simp: handleSelectionBoxMove_def Let_def sameGestures_def getCurrentPage_update
      split: option.splits prod.splits)

lemma sameGestures_onpointermove: "sameGestures s (onpointermove s e)"
proof (cases "getCurrentPage s")
  case None
  then show ?thesis by (simp add: onpointermove_def)
next
  case (Some p)
  let ?s1 = "updateCurrentPage s (\<lambda>p. p\<lparr>mouseX := clientX e, mouseY := clientY e\<rparr>)"
  have 1: "sameGestures s ?s1" by (simp add: sameGestures_update)
  have "sameGestures ?s1 (onpointermove s e)"
    using Some
    by (simp add: onpointermove_def Let_def sameGestures_handleResizePointerMove
        sameGestures_handleBlockDrag sameGestures_handleViewportDrag
        sameGestures_handleSelectionBoxMove)
  with 1 show ?thesis by (rule sameGestures_trans)
qed

lemma sameGestures_onwheel: "sameGestures s (onwheel s e)"
  by (simp add: onwheel_def Let_def sameGestures_update split: option.splits)

lemma idle_onpointerup: "idle (onpointerup s)"
  by (auto simp: onpointerup_def idle_def noGesture_def handleDragCompletion_def
      handleResizeCompletion_def handleSelectionBoxComplete_def Let_def getCurrentPage_update
      split: option.splits resize_id.splits)

lemma atMostOne_onpointerdown: "idle s \<Longrightarrow> atMostOneGesture (onpointerdown s e)"
  by (auto simp: onpointerdown_def handleMiddleMouseDown_def handleDragStart_def
      handleSelectionBoxStart_def deselectAllBlocks_def Let_def idle_def noGesture_def
      atMostOneGesture_def gestureCount_def getCurrentPage_update
      split: option.splits list.splits prod.splits)

lemma idle_toggle: "idle s \<Longrightarrow> idle (toggleBlockSelection s i)"
  by (auto simp: toggleBlockSelection_def addBlockToSelection_def removeBlockFromSelection_def
      Let_def idle_def noGesture_def getCurrentPage_update split: option.splits)

lemma block_onpointerdown_propagates:
  "\<not> snd (block_onpointerdown b m s e) \<Longrightarrow> fst (block_onpointerdown b m s e) = s"
  by (simp add: block_onpointerdown_def split: option.splits if_splits)

lemma atMostOne_select_drag:
  "idle s \<Longrightarrow> atMostOneGesture (updateCurrentPage (selectBlock s i) (\<lambda>p. p\<lparr>dragStart := Some d\<rparr>))"
  by (auto simp: selectBlock_def atMostOneGesture_def gestureCount_def idle_def noGesture_def
      getCurrentPage_update split: option.splits)

lemma atMostOne_block_onpointerdown:
  "idle s \<Longrightarrow> atMostOneGesture (fst (block_onpointerdown b m s e))"
  by (simp add: block_onpointerdown_def idle_atMostOne idle_toggle atMostOne_select_drag
      split: option.splits)

lemma atMostOne_block_down:
  assumes "idle s"
  shows "atMostOneGesture (dispatch s (BlockPointerDown i e))"
proof (cases "find (\<lambda>b. blk_id b = i) (getCurrentBlocks s)")
  case None
  with assms show ?thesis by (simp add: idle_atMostOne)
next
  case (Some b)
  let ?r = "block_onpointerdown b (length (getSelectedBlocks s) > 1) s e"
  show ?thesis
  proof (cases "snd ?r")
    case True
    with Some assms show ?thesis by (simp add: atMostOne_block_onpointerdown)
  next
    case False
    then have "fst ?r = s" by (rule block_onpointerdown_propagates)
    with Some False assms show ?thesis by (simp add: atMostOne_onpointerdown)
  qed
qed

lemma atMostOne_handle_down:
  assumes "idle s"
  shows "atMostOneGesture (ResizeHandle_block_onpointerdown s i h)"
    and "atMostOneGesture (ResizeHandle_multi_onpointerdown s h)"
  using assms
  by (auto simp: ResizeHandle_block_onpointerdown_def ResizeHandle_multi_onpointerdown_def
      selectBlock_def Let_def idle_def noGesture_def atMostOneGesture_def gestureCount_def
      getCurrentPage_update split: option.splits)

lemma gesture_invariant:
  "(well_bracketed False es \<longrightarrow> idle s \<longrightarrow> atMostOneGesture (run_events es s)) \<and>
   (well_bracketed True es \<longrightarrow> atMostOneGesture s \<longrightarrow> atMostOneGesture (run_events es s))"
proof (induction es arbitrary: s)
  case Nil
  show ?case by (simp add: run_events_def idle_atMostOne)
next
  case (Cons ev es)
  have step: "run_events (ev # es) s = run_events es (dispatch s ev)"
    by (simp add: run_events_def)
  show ?case
  proof (cases ev)
    case (ViewportPointerDown e)
    with Cons[of "dispatch s ev"] show ?thesis
      unfolding step by (simp add: atMostOne_onpointerdown)
  next
    case (BlockPointerDown i e)
    with Cons[of "dispatch s ev"] atMostOne_block_down[of s i e] show ?thesis
      unfolding step by simp
  next
    case (BlockHandlePointerDown i h)
    with Cons[of "dispatch s ev"] show ?thesis
      unfolding step by (simp add: atMostOne_handle_down)
  next
    case (MultiHandlePointerDown h)
    with Cons[of "dispatch s ev"] show ?thesis
      unfolding step by (simp add: atMostOne_handle_down)
  next
    case (PointerMove e)
    with Cons[of "dispatch s ev"] sameGestures_onpointermove[of s e] show ?thesis
      unfolding step by (auto dest: sameGestures_idle sameGestures_atMostOne)
  next
    case PointerUp
    with Cons[of "dispatch s ev"] idle_onpointerup[of s] show ?thesis
      unfolding step by simp
  next
    case (Wheel e)
    with Cons[of "dispatch s ev"] sameGestures_onwheel[of s e] show ?thesis
      unfolding step by (auto dest: sameGestures_idle sameGestures_atMostOne)
  qed
qed

section \<open>Unfolding the handlers on concrete states\<close>

lemmas handler_defs =
  onpointerdown_def handleMiddleMouseDown_def handleDragStart_def handleSelectionBoxStart_def
  deselectAllBlocks_def onpointermove_def handleBlockDrag_def handleViewportDrag_def
  handleSelectionBoxMove_def onpointerup_def handleDragCompletion_def handleResizeCompletion_def
  handleSelectionBoxComplete_def block_onpointerdown_def selectBlock_def
  ResizeHandle_block_onpointerdown_def ResizeHandle_multi_onpointerdown_def
  getCanvasCoordinates_def getCurrentViewport_def getCurrentBlocks_def getCurrentPage_def
  getSelectedBlocks_def getSelectedBlockIds_def getSelectionBoundingBox_def
  isPointInSelectionBounds_def calculatePreviewSelection_def updateCurrentPage_def
  hasAnyBlockMoved_def hasAnyBlockChanged_def saveMementoAndReturn_def createMemento_def
  cleanPage_def js_slice_from_def js_set_spread_def toggleBlockSelection_def
  addBlockToSelection_def removeBlockFromSelection_def isBlockSelected_def
  handleResizePointerMove_def RESIZE_HANDLERS_def applyAspectRatioConstraint_def MIN_SIZE_def
  RESIZE_CURSORS_def includes_n_def includes_w_def onwheel_def

lemmas example_defs =
  stateWithBlocks_def initialState_def defaultPage_def createMementoManager_def
  blockA_def blockB_def pointerAt_def run_events_def

section \<open>Snapshots\<close>












section \<open>Gesture records: at most one at a time\<close>

text \<open>
  Claim C3, as amended. From a state whose current page has no gesture record set, after
  any well-bracketed sequence of pointer-down, pointer-move, pointer-up and wheel events
  (no pointer-down follows a pointer-down without a pointer-up in between) at most one of
  \<open>resizing\<close>, \<open>dragStart\<close> and \<open>selectionBox\<close> of the current page is set.
\<close>

theorem gesture_mutual_exclusion:
  assumes "idle s" and "well_bracketed False es"
  shows "atMostOneGesture (run_events es s)"
  using assms gesture_invariant[of es s] by blast

theorem gesture_mutual_exclusion_witness:
  "idle (stateWithBlocks [blockA]) \<and>
   well_bracketed False
     [BlockPointerDown 1 (pointerAt 10 10), PointerMove (pointerAt 20 20), PointerUp,
      ViewportPointerDown (pointerAt 300 300), PointerMove (pointerAt 50 50)] \<and>
   atMostOneGesture (run_events
     [BlockPointerDown 1 (pointerAt 10 10), PointerMove (pointerAt 20 20), PointerUp,
      ViewportPointerDown (pointerAt 300 300), PointerMove (pointerAt 50 50)]
     (stateWithBlocks [blockA]))"
proof -
  have i: "idle (stateWithBlocks [blockA])"
    by (simp add: idle_def noGesture_def getCurrentPage_def example_defs)
  have w: "well_bracketed False
     [BlockPointerDown 1 (pointerAt 10 10), PointerMove (pointerAt 20 20), PointerUp,
      ViewportPointerDown (pointerAt 300 300), PointerMove (pointerAt 50 50)]"
    by simp
  from gesture_mutual_exclusion[OF i w] i w show ?thesis by blast
qed

text \<open>
  A pointer-down on a block followed by a pointer-down on the empty canvas, with no
  pointer-up in between, leaves both \<open>dragStart\<close> and \<open>selectionBox\<close> set: no handler of
  a pointer-down clears the records of the other gestures. The claim C3 as it is written,
  for any sequence of pointer events, fails there.
\<close>

theorem two_gestures_at_once:
  "idle (stateWithBlocks [blockA]) \<and>
   map dragStart (pages (run_events
       [BlockPointerDown 1 (pointerAt 10 10), ViewportPointerDown (pointerAt 300 300)]
       (stateWithBlocks [blockA]))) =
     [Some \<lparr>ds_id = 1, ds_startX = 0, ds_startY = 0\<rparr>] \<and>
   map selectionBox (pages (run_events
       [BlockPointerDown 1 (pointerAt 10 10), ViewportPointerDown (pointerAt 300 300)]
       (stateWithBlocks [blockA]))) =
     [Some \<lparr>sb_startX = 300, sb_startY = 300, sb_currentX = 300, sb_currentY = 300\<rparr>] \<and>
   \<not> atMostOneGesture (run_events
       [BlockPointerDown 1 (pointerAt 10 10), ViewportPointerDown (pointerAt 300 300)]
       (stateWithBlocks [blockA]))"
  by (simp add: handler_defs example_defs Let_def idle_def noGesture_def atMostOneGesture_def
      gestureCount_def)

section \<open>Page isolation\<close>

text \<open>
  Claim C10. \<open>updateCurrentPage\<close> with any page data, every pointer and wheel handler of
  the canvas, every sequence of their events, and the selection operations leave the
  current page id, the number of pages and every page whose id is not the current page id
  as they were.
\<close>

theorem page_isolation:
  "otherPagesUnchanged s (updateCurrentPage s pageData) \<and>
   otherPagesUnchanged s (dispatch s ev) \<and>
   otherPagesUnchanged s (run_events es s) \<and>
   otherPagesUnchanged s (selectBlock s i) \<and>
   otherPagesUnchanged s (deselectAllBlocks s) \<and>
   otherPagesUnchanged s (toggleBlockSelection s i) \<and>
   otherPagesUnchanged s (handleBlockDrag s dx dy) \<and>
   otherPagesUnchanged s (handleViewportDrag s dx dy) \<and>
   otherPagesUnchanged s (handleResizePointerMove s e) \<and>
   otherPagesUnchanged s (handleSelectionBoxMove s e) \<and>
   otherPagesUnchanged s (onwheel s w)"
  by (simp add: opu_dispatch opu_run_events handleBlockDrag_def handleViewportDrag_def
      handleSelectionBoxMove_def Let_def split: option.splits prod.splits)

theorem page_isolation_witness:
  "pages (run_events
      [BlockPointerDown 1 (pointerAt 10 10), PointerMove (pointerAt 40 30), PointerUp]
      twoPageState) ! 1 =
   (defaultPage ''p2'')\<lparr>blocks := [blockB], selectedIds := [2]\<rparr>"
proof -
  have "otherPagesUnchanged twoPageState (run_events
      [BlockPointerDown 1 (pointerAt 10 10), PointerMove (pointerAt 40 30), PointerUp]
      twoPageState)"
    using page_isolation[of twoPageState] by blast
  then show ?thesis
    by (simp add: otherPagesUnchanged_def twoPageState_def initialState_def defaultPage_def)
qed

section \<open>Resizing: lemmas\<close>

lemma getCurrentBlocks_update:
  "(\<And>p. page_id (f p) = page_id p) \<Longrightarrow>
   getCurrentBlocks (updateCurrentPage s f) =
     (case getCurrentPage s of None \<Rightarrow> [] | Some p \<Rightarrow> blocks (f p))"
  by (simp add: getCurrentBlocks_def getCurrentPage_update split: option.splits)

text \<open>The blocks of the current page after a resize move, branch by branch.\<close>

lemma resize_move_single:
  assumes "getCurrentPage s = Some p" and "resizing p = Some r" and "rs_id r = BlockId i"
    and "find (\<lambda>b. blk_id b = i) (blocks p) = Some b0"
  shows "getCurrentBlocks (handleResizePointerMove s e) =
           map (\<lambda>b. if blk_id b = i
                     then b\<lparr>blk_x := dim_x (newDimensionsOf s r b0 e),
                            blk_y := dim_y (newDimensionsOf s r b0 e),
                            blk_width := max MIN_SIZE (dim_width (newDimensionsOf s r b0 e)),
                            blk_height := max MIN_SIZE (dim_height (newDimensionsOf s r b0 e))\<rparr>
                     else b) (blocks p)"
  using assms
  by (simp add: handleResizePointerMove_def newDimensionsOf_def Let_def getCurrentPage_update
      getCurrentBlocks_def)

lemma resize_move_single_none:
  assumes "getCurrentPage s = Some p" and "resizing p = Some r" and "rs_id r = BlockId i"
    and "find (\<lambda>b. blk_id b = i) (blocks p) = None"
  shows "handleResizePointerMove s e = s"
  using assms by (simp add: handleResizePointerMove_def Let_def getCurrentBlocks_def)

lemma resize_move_group:
  assumes "getCurrentPage s = Some p" and "resizing p = Some r" and "rs_id r = SelectionBoundingBox"
    and "rs_originalBlocks r = Some obs"
  shows "getCurrentBlocks (handleResizePointerMove s e) =
           map (\<lambda>b. case find (\<lambda>ob. orig_id ob = blk_id b) obs of
                       None \<Rightarrow> b
                     | Some ob \<Rightarrow>
                         b\<lparr>blk_x := dim_x (newBBoxOf s r e) +
                                (orig_x ob - rs_startX r) / rs_startWidth r * dim_width (newBBoxOf s r e),
                           blk_y := dim_y (newBBoxOf s r e) +
                                (orig_y ob - rs_startY r) / rs_startHeight r * dim_height (newBBoxOf s r e),
                           blk_width := max MIN_SIZE
                                (orig_width ob * (dim_width (newBBoxOf s r e) / rs_startWidth r)),
                           blk_height := max MIN_SIZE
                                (orig_height ob * (dim_height (newBBoxOf s r e) / rs_startHeight r))\<rparr>)
             (blocks p)"
  using assms
  by (simp add: handleResizePointerMove_def newBBoxOf_def virtualBoundingBox_def Let_def getCurrentPage_update
      getCurrentBlocks_update getCurrentBlocks_def cong: option.case_cong)

lemma resize_move_group_none:
  assumes "getCurrentPage s = Some p" and "resizing p = Some r" and "rs_id r = SelectionBoundingBox"
    and "rs_originalBlocks r = None"
  shows "handleResizePointerMove s e = s"
  using assms by (simp add: handleResizePointerMove_def Let_def)


lemma find_orig_None: "find (\<lambda>ob. orig_id ob = i) obs = None \<Longrightarrow> i \<notin> orig_id ` set obs"
  by (auto simp: find_None_iff)

lemma resize_move_min_size:
  assumes "getCurrentPage s = Some p" and "resizing p = Some r"
  shows "\<forall>b \<in> set (getCurrentBlocks (handleResizePointerMove s e)).
           (isResized r b \<longrightarrow> hasMinSize b) \<and>
           ((\<forall>c \<in> set (blocks p). hasMinSize c) \<longrightarrow> hasMinSize b)"
proof (cases "rs_id r")
  case (BlockId i)
  show ?thesis
  proof (cases "find (\<lambda>b. blk_id b = i) (blocks p)")
    case None
    then have "\<forall>b \<in> set (blocks p). blk_id b \<noteq> i" by (simp add: find_None_iff)
    with resize_move_single_none[OF assms BlockId None, of e] assms BlockId show ?thesis
      by (auto simp: getCurrentBlocks_def isResized_def)
  next
    case (Some b0)
    show ?thesis
      unfolding resize_move_single[OF assms BlockId Some]
      using BlockId by (auto simp: isResized_def hasMinSize_def)
  qed
next
  case SelectionBoundingBox
  show ?thesis
  proof (cases "rs_originalBlocks r")
    case None
    with resize_move_group_none[OF assms SelectionBoundingBox None, of e] assms SelectionBoundingBox
    show ?thesis by (auto simp: getCurrentBlocks_def isResized_def)
  next
    case (Some obs)
    show ?thesis
      unfolding resize_move_group[OF assms SelectionBoundingBox Some]
      using SelectionBoundingBox Some
      by (auto simp: isResized_def hasMinSize_def dest: find_orig_None split: option.splits)
  qed
qed

lemma onpointermove_resizing:
  assumes "getCurrentPage s = Some p" and "resizing p = Some r"
  shows "onpointermove s e =
         handleResizePointerMove (updateCurrentPage s (\<lambda>p. p\<lparr>mouseX := clientX e, mouseY := clientY e\<rparr>)) e"
  using assms by (simp add: onpointermove_def Let_def)

lemma resize_move_min_size_onpointermove:
  assumes "getCurrentPage s = Some p" and "resizing p = Some r"
  shows "\<forall>b \<in> set (getCurrentBlocks (onpointermove s e)).
           (isResized r b \<longrightarrow> hasMinSize b) \<and>
           ((\<forall>c \<in> set (blocks p). hasMinSize c) \<longrightarrow> hasMinSize b)"
proof -
  let ?s1 = "updateCurrentPage s (\<lambda>p. p\<lparr>mouseX := clientX e, mouseY := clientY e\<rparr>)"
  let ?p1 = "p\<lparr>mouseX := clientX e, mouseY := clientY e\<rparr>"
  have 1: "getCurrentPage ?s1 = Some ?p1" using assms(1) by (simp add: getCurrentPage_update)
  have 2: "resizing ?p1 = Some r" using assms(2) by simp
  from resize_move_min_size[OF 1 2, of e] show ?thesis
    unfolding onpointermove_resizing[OF assms] by simp
qed

section \<open>Resizing: the minimum size\<close>

text \<open>
  Claim C5. While a resize is recorded on the current page, a pointer move leaves every
  block that the gesture resizes (the one block, or every block of the group) with width
  and height at least \<open>MIN_SIZE\<close>, for every handle and pointer position and with or
  without shift; if all blocks of the page had the minimum size before, all have it after.
  For one block the new width and height are the maximum of \<open>MIN_SIZE\<close> and what the
  handler, after the aspect-ratio constraint when shift is pressed, proposes: the floor is
  the last step. The hypotheses keep the divisors of the computation away from zero.
\<close>

theorem resize_minimum_size:
  assumes "getCurrentPage s = Some p" and "resizing p = Some r"
    and "zoom p \<noteq> 0"
    and "isShiftPressed s \<or> rs_id r = SelectionBoundingBox \<Longrightarrow>
           rs_startWidth r \<noteq> 0 \<and> rs_startHeight r \<noteq> 0"
  shows "(\<forall>b \<in> set (getCurrentBlocks (handleResizePointerMove s e)).
            (isResized r b \<longrightarrow> blk_width b \<ge> MIN_SIZE \<and> blk_height b \<ge> MIN_SIZE) \<and>
            ((\<forall>c \<in> set (blocks p). hasMinSize c) \<longrightarrow> hasMinSize b)) \<and>
         (\<forall>b \<in> set (getCurrentBlocks (onpointermove s e)).
            (isResized r b \<longrightarrow> blk_width b \<ge> MIN_SIZE \<and> blk_height b \<ge> MIN_SIZE) \<and>
            ((\<forall>c \<in> set (blocks p). hasMinSize c) \<longrightarrow> hasMinSize b)) \<and>
         (\<forall>i b0. rs_id r = BlockId i \<longrightarrow> find (\<lambda>b. blk_id b = i) (blocks p) = Some b0 \<longrightarrow>
            getCurrentBlocks (handleResizePointerMove s e) =
              map (\<lambda>b. if blk_id b = i
                        then b\<lparr>blk_x := dim_x (newDimensionsOf s r b0 e),
                               blk_y := dim_y (newDimensionsOf s r b0 e),
                               blk_width := max MIN_SIZE (dim_width (newDimensionsOf s r b0 e)),
                               blk_height := max MIN_SIZE (dim_height (newDimensionsOf s r b0 e))\<rparr>
                        else b) (blocks p))"
  using resize_move_min_size[OF assms(1,2), of e]
    resize_move_min_size_onpointermove[OF assms(1,2), of e]
    resize_move_single[OF assms(1,2)]
  by (simp add: hasMinSize_def)

lemma singleResizeState_page:
  "getCurrentPage singleResizeState =
     Some ((defaultPage ''p1'')\<lparr>blocks := [blockA], selectedIds := [1],
        cursorStyle := ''nwse-resize'',
        resizing := Some \<lparr>rs_id = BlockId 1, rs_handle = NW,
           rs_startWidth = 100, rs_startHeight = 100, rs_startX = 0, rs_startY = 0,
           rs_originalBlocks = None\<rparr>\<rparr>)"
  by (simp add: singleResizeState_def handler_defs example_defs Let_def)

lemma singleResizeState_move:
  "getCurrentBlocks (onpointermove singleResizeState (pointerAt 95 95)) =
     [blockA\<lparr>blk_x := 80, blk_y := 80, blk_width := 20, blk_height := 20\<rparr>]"
  by (simp add: singleResizeState_def handler_defs example_defs Let_def)

theorem resize_minimum_size_witness:
  "blk_width (hd (getCurrentBlocks (onpointermove singleResizeState (pointerAt 95 95)))) \<ge> MIN_SIZE \<and>
   blk_height (hd (getCurrentBlocks (onpointermove singleResizeState (pointerAt 95 95)))) \<ge> MIN_SIZE \<and>
   getCurrentBlocks (onpointermove singleResizeState (pointerAt 95 95)) =
     [blockA\<lparr>blk_x := 80, blk_y := 80, blk_width := 20, blk_height := 20\<rparr>]"
proof -
  let ?r = "\<lparr>rs_id = BlockId 1, rs_handle = NW,
           rs_startWidth = 100, rs_startHeight = 100, rs_startX = 0, rs_startY = 0,
           rs_originalBlocks = None\<rparr>"
  let ?p = "(defaultPage ''p1'')\<lparr>blocks := [blockA], selectedIds := [1],
        cursorStyle := ''nwse-resize'', resizing := Some ?r\<rparr>"
  have 1: "getCurrentPage singleResizeState = Some ?p" by (rule singleResizeState_page)
  have 2: "resizing ?p = Some ?r" by simp
  have 3: "zoom ?p \<noteq> 0" by (simp add: defaultPage_def)
  have 4: "isShiftPressed singleResizeState \<or> rs_id ?r = SelectionBoundingBox \<Longrightarrow>
           rs_startWidth ?r \<noteq> 0 \<and> rs_startHeight ?r \<noteq> 0" by simp
  let ?b = "hd (getCurrentBlocks (onpointermove singleResizeState (pointerAt 95 95)))"
  have m: "?b \<in> set (getCurrentBlocks (onpointermove singleResizeState (pointerAt 95 95)))"
    by (simp add: singleResizeState_move)
  have r: "isResized ?r ?b"
    by (simp add: singleResizeState_move isResized_def blockA_def)
  from resize_minimum_size[OF 1 2 3 4, of "pointerAt 95 95"] m r
  have "blk_width ?b \<ge> MIN_SIZE \<and> blk_height ?b \<ge> MIN_SIZE" by blast
  with singleResizeState_move show ?thesis by simp
qed

section \<open>Resizing a group\<close>

lemma groupResizeState_page:
  "getCurrentPage groupResizeState =
     Some ((defaultPage ''p1'')\<lparr>blocks := [blockA, blockB], selectedIds := [1, 2],
        cursorStyle := ''nwse-resize'',
        resizing := Some \<lparr>rs_id = SelectionBoundingBox, rs_handle = SE,
           rs_startWidth = 150, rs_startHeight = 100, rs_startX = 0, rs_startY = 0,
           rs_originalBlocks = Some
             [\<lparr>orig_id = 1, orig_x = 0, orig_y = 0, orig_width = 100, orig_height = 100\<rparr>,
              \<lparr>orig_id = 2, orig_x = 100, orig_y = 0, orig_width = 50, orig_height = 50\<rparr>]\<rparr>\<rparr>)"
  by (simp add: groupResizeState_def handler_defs example_defs Let_def)

lemma groupResizeState_newBBox:
  "newBBoxOf groupResizeState
      \<lparr>rs_id = SelectionBoundingBox, rs_handle = SE,
       rs_startWidth = 150, rs_startHeight = 100, rs_startX = 0, rs_startY = 0,
       rs_originalBlocks = obs\<rparr> (pointerAt px py) =
   \<lparr>dim_width = px, dim_height = py, dim_x = 0, dim_y = 0\<rparr>"
  using groupResizeState_page
  by (simp add: newBBoxOf_def virtualBoundingBox_def RESIZE_HANDLERS_def getCurrentViewport_def
      pointerAt_def defaultPage_def groupResizeState_def handler_defs example_defs Let_def)

text \<open>
  Claim C6, as amended. A pointer move while the bounding box of a group is resized gives
  every block that has an entry in \<open>originalBlocks\<close> the position
  \<open>newBBox.x + relativeX * newBBox.width\<close> (likewise for y), where \<open>relativeX\<close> is the
  block's original offset in the original bounding box divided by the original width, and
  the width \<open>max(MIN_SIZE, originalWidth * (newBBox.width / originalBBoxWidth))\<close> (likewise
  the height); \<open>newBBox\<close> is the handler of the handle applied to the bounding box recorded
  at the start. The other fields of the block, and the blocks without an entry, stay.
\<close>

theorem group_resize_projection:
  assumes "getCurrentPage s = Some p" and "resizing p = Some r"
    and "rs_id r = SelectionBoundingBox" and "rs_originalBlocks r = Some obs"
    and "zoom p \<noteq> 0" and "rs_startWidth r \<noteq> 0" and "rs_startHeight r \<noteq> 0"
  shows "length (getCurrentBlocks (handleResizePointerMove s e)) = length (blocks p) \<and>
         (\<forall>k < length (blocks p).
            case find (\<lambda>ob. orig_id ob = blk_id (blocks p ! k)) obs of
              None \<Rightarrow> getCurrentBlocks (handleResizePointerMove s e) ! k = blocks p ! k
            | Some ob \<Rightarrow>
                blk_x (getCurrentBlocks (handleResizePointerMove s e) ! k) =
                  dim_x (newBBoxOf s r e) +
                  (orig_x ob - rs_startX r) / rs_startWidth r * dim_width (newBBoxOf s r e) \<and>
                blk_y (getCurrentBlocks (handleResizePointerMove s e) ! k) =
                  dim_y (newBBoxOf s r e) +
                  (orig_y ob - rs_startY r) / rs_startHeight r * dim_height (newBBoxOf s r e) \<and>
                blk_width (getCurrentBlocks (handleResizePointerMove s e) ! k) =
                  max MIN_SIZE (orig_width ob * (dim_width (newBBoxOf s r e) / rs_startWidth r)) \<and>
                blk_height (getCurrentBlocks (handleResizePointerMove s e) ! k) =
                  max MIN_SIZE (orig_height ob * (dim_height (newBBoxOf s r e) / rs_startHeight r)) \<and>
                blk_id (getCurrentBlocks (handleResizePointerMove s e) ! k) = blk_id (blocks p ! k) \<and>
                blk_zIndex (getCurrentBlocks (handleResizePointerMove s e) ! k) = blk_zIndex (blocks p ! k) \<and>
                blk_imageSrc (getCurrentBlocks (handleResizePointerMove s e) ! k) = blk_imageSrc (blocks p ! k) \<and>
                blk_pageSrc (getCurrentBlocks (handleResizePointerMove s e) ! k) = blk_pageSrc (blocks p ! k))"
  unfolding resize_move_group[OF assms(1-4)]
  by (simp split: option.splits)

text \<open>
  The example of the specification: A and B selected, the south-east handle dragged to
  (300, 200), which takes the bounding box from 150 by 100 to 300 by 200.
\<close>

theorem group_resize_projection_witness:
  "blk_x (getCurrentBlocks (handleResizePointerMove groupResizeState (pointerAt 300 200)) ! 0) = 0 \<and>
   blk_y (getCurrentBlocks (handleResizePointerMove groupResizeState (pointerAt 300 200)) ! 0) = 0 \<and>
   blk_width (getCurrentBlocks (handleResizePointerMove groupResizeState (pointerAt 300 200)) ! 0) = 200 \<and>
   blk_height (getCurrentBlocks (handleResizePointerMove groupResizeState (pointerAt 300 200)) ! 0) = 200 \<and>
   blk_x (getCurrentBlocks (handleResizePointerMove groupResizeState (pointerAt 300 200)) ! 1) = 200 \<and>
   blk_y (getCurrentBlocks (handleResizePointerMove groupResizeState (pointerAt 300 200)) ! 1) = 0 \<and>
   blk_width (getCurrentBlocks (handleResizePointerMove groupResizeState (pointerAt 300 200)) ! 1) = 100 \<and>
   blk_height (getCurrentBlocks (handleResizePointerMove groupResizeState (pointerAt 300 200)) ! 1) = 100"
proof -
  let ?obs = "[\<lparr>orig_id = 1, orig_x = 0, orig_y = 0, orig_width = 100, orig_height = 100\<rparr>,
              \<lparr>orig_id = 2, orig_x = 100, orig_y = 0, orig_width = 50, orig_height = 50\<rparr>]"
  let ?r = "\<lparr>rs_id = SelectionBoundingBox, rs_handle = SE,
           rs_startWidth = 150, rs_startHeight = 100, rs_startX = 0, rs_startY = 0,
           rs_originalBlocks = Some ?obs\<rparr>"
  let ?p = "(defaultPage ''p1'')\<lparr>blocks := [blockA, blockB], selectedIds := [1, 2],
        cursorStyle := ''nwse-resize'', resizing := Some ?r\<rparr>"
  have 1: "getCurrentPage groupResizeState = Some ?p" by (rule groupResizeState_page)
  have 2: "resizing ?p = Some ?r" by simp
  have 3: "rs_id ?r = SelectionBoundingBox" by simp
  have 4: "rs_originalBlocks ?r = Some ?obs" by simp
  have 5: "zoom ?p \<noteq> 0" by (simp add: defaultPage_def)
  have 6: "rs_startWidth ?r \<noteq> 0" by simp
  have 7: "rs_startHeight ?r \<noteq> 0" by simp
  note t = group_resize_projection[OF 1 2 3 4 5 6 7, of "pointerAt 300 200"]
  from t have a: "\<forall>k < length (blocks ?p).
            case find (\<lambda>ob. orig_id ob = blk_id (blocks ?p ! k)) ?obs of
              None \<Rightarrow> getCurrentBlocks (handleResizePointerMove groupResizeState (pointerAt 300 200)) ! k = blocks ?p ! k
            | Some ob \<Rightarrow>
                blk_x (getCurrentBlocks (handleResizePointerMove groupResizeState (pointerAt 300 200)) ! k) =
                  dim_x (newBBoxOf groupResizeState ?r (pointerAt 300 200)) +
                  (orig_x ob - rs_startX ?r) / rs_startWidth ?r * dim_width (newBBoxOf groupResizeState ?r (pointerAt 300 200)) \<and>
                blk_y (getCurrentBlocks (handleResizePointerMove groupResizeState (pointerAt 300 200)) ! k) =
                  dim_y (newBBoxOf groupResizeState ?r (pointerAt 300 200)) +
                  (orig_y ob - rs_startY ?r) / rs_startHeight ?r * dim_height (newBBoxOf groupResizeState ?r (pointerAt 300 200)) \<and>
                blk_width (getCurrentBlocks (handleResizePointerMove groupResizeState (pointerAt 300 200)) ! k) =
                  max MIN_SIZE (orig_width ob * (dim_width (newBBoxOf groupResizeState ?r (pointerAt 300 200)) / rs_startWidth ?r)) \<and>
                blk_height (getCurrentBlocks (handleResizePointerMove groupResizeState (pointerAt 300 200)) ! k) =
                  max MIN_SIZE (orig_height ob * (dim_height (newBBoxOf groupResizeState ?r (pointerAt 300 200)) / rs_startHeight ?r)) \<and>
                blk_id (getCurrentBlocks (handleResizePointerMove groupResizeState (pointerAt 300 200)) ! k) = blk_id (blocks ?p ! k) \<and>
                blk_zIndex (getCurrentBlocks (handleResizePointerMove groupResizeState (pointerAt 300 200)) ! k) = blk_zIndex (blocks ?p ! k) \<and>
                blk_imageSrc (getCurrentBlocks (handleResizePointerMove groupResizeState (pointerAt 300 200)) ! k) = blk_imageSrc (blocks ?p ! k) \<and>
                blk_pageSrc (getCurrentBlocks (handleResizePointerMove groupResizeState (pointerAt 300 200)) ! k) = blk_pageSrc (blocks ?p ! k)"
    by (rule conjunct2)
  from a[rule_format, of 0] a[rule_format, of 1] show ?thesis
    by (simp add: groupResizeState_newBBox blockA_def blockB_def MIN_SIZE_def Let_def)
qed

text \<open>
  Dragging the same handle to (45, 30) scales by 0.3: B would get the width 15 by the
  formula of claim C6 as it is written, and gets 20, the floor.
\<close>

theorem group_resize_floor:
  "getCurrentBlocks (handleResizePointerMove groupResizeState (pointerAt 45 30)) =
     [blockA\<lparr>blk_width := 30, blk_height := 30\<rparr>,
      blockB\<lparr>blk_x := 30, blk_y := 0, blk_width := 20, blk_height := 20\<rparr>] \<and>
   blk_width blockB * (45 / 150) = 15"
  by (simp add: groupResizeState_def handler_defs example_defs Let_def)

section \<open>Zooming with the wheel\<close>

lemma onwheel_zoom_page:
  assumes "getCurrentPage s = Some p"
    and "ctrlKey e \<or> (metaKey e \<and> \<bar>deltaY e\<bar> \<ge> 50)"
  shows "getCurrentPage (onwheel s e) =
     Some (p\<lparr>zoom := max (1 / 10) (min 5 (zoom p + - deltaY e * (1 / 100))),
             offsetX := (mouseX p - rectLeft e) -
                ((mouseX p - rectLeft e) - offsetX p) *
                (max (1 / 10) (min 5 (zoom p + - deltaY e * (1 / 100))) / zoom p),
             offsetY := (mouseY p - rectTop e) -
                ((mouseY p - rectTop e) - offsetY p) *
                (max (1 / 10) (min 5 (zoom p + - deltaY e * (1 / 100))) / zoom p)\<rparr>)"
  using assms by (auto simp: onwheel_def Let_def getCurrentPage_update)

lemma anchor_1d:
  fixes P off z z' :: real
  assumes "z \<noteq> 0" and "z' \<noteq> 0"
  shows "(P - (P - (P - off) * (z' / z))) / z' = (P - off) / z"
  using assms by (simp add: field_simps)

text \<open>
  What \<open>onwheel\<close> computes on its zoom branch, in terms of the pointer position recorded on
  the page.
\<close>

lemma onwheel_zoom_recorded:
  assumes "getCurrentPage s = Some p" and "zoom p \<noteq> 0"
    and "ctrlKey e \<or> (metaKey e \<and> \<bar>deltaY e\<bar> \<ge> 50)"
  shows "\<exists>q. getCurrentPage (onwheel s e) = Some q \<and>
           zoom q = max (1 / 10) (min 5 (zoom p + - deltaY e * (1 / 100))) \<and>
           1 / 10 \<le> zoom q \<and> zoom q \<le> 5 \<and>
           offsetX q = (mouseX p - rectLeft e) - ((mouseX p - rectLeft e) - offsetX p) * (zoom q / zoom p) \<and>
           offsetY q = (mouseY p - rectTop e) - ((mouseY p - rectTop e) - offsetY p) * (zoom q / zoom p) \<and>
           spec_screenToCanvas (mouseX p - rectLeft e, mouseY p - rectTop e)
              \<lparr>vp_offsetX = offsetX q, vp_offsetY = offsetY q, vp_zoom = zoom q\<rparr> =
           spec_screenToCanvas (mouseX p - rectLeft e, mouseY p - rectTop e)
              \<lparr>vp_offsetX = offsetX p, vp_offsetY = offsetY p, vp_zoom = zoom p\<rparr>"
proof -
  define z' where "z' = max (1 / 10) (min 5 (zoom p + - deltaY e * (1 / 100)))"
  define Px where "Px = mouseX p - rectLeft e"
  define Py where "Py = mouseY p - rectTop e"
  define q where "q = p\<lparr>zoom := z', offsetX := Px - (Px - offsetX p) * (z' / zoom p),
                          offsetY := Py - (Py - offsetY p) * (z' / zoom p)\<rparr>"
  have lo: "1 / 10 \<le> z'" and hi: "z' \<le> 5" by (simp_all add: z'_def)
  then have nz: "z' \<noteq> 0" by simp
  have page: "getCurrentPage (onwheel s e) = Some q"
    unfolding onwheel_zoom_page[OF assms(1,3)] q_def z'_def Px_def Py_def ..
  have zq: "zoom q = z'" and ox: "offsetX q = Px - (Px - offsetX p) * (z' / zoom p)"
    and oy: "offsetY q = Py - (Py - offsetY p) * (z' / zoom p)"
    by (simp_all add: q_def)
  have anchor: "spec_screenToCanvas (Px, Py)
              \<lparr>vp_offsetX = offsetX q, vp_offsetY = offsetY q, vp_zoom = zoom q\<rparr> =
           spec_screenToCanvas (Px, Py)
              \<lparr>vp_offsetX = offsetX p, vp_offsetY = offsetY p, vp_zoom = zoom p\<rparr>"
    unfolding zq ox oy spec_screenToCanvas_def
    using anchor_1d[OF assms(2) nz, of Px "offsetX p"] anchor_1d[OF assms(2) nz, of Py "offsetY p"]
    by (simp only: fst_conv snd_conv viewport_data.simps)
  have f2: "zoom q = max (1 / 10) (min 5 (zoom p + - deltaY e * (1 / 100)))"
    using zq by (simp only: z'_def)
  have f3: "1 / 10 \<le> zoom q" and f4: "zoom q \<le> 5"
    using lo hi by (simp_all only: zq)
  have f5: "offsetX q = (mouseX p - rectLeft e) - ((mouseX p - rectLeft e) - offsetX p) * (zoom q / zoom p)"
    using ox by (simp only: zq Px_def)
  have f6: "offsetY q = (mouseY p - rectTop e) - ((mouseY p - rectTop e) - offsetY p) * (zoom q / zoom p)"
    using oy by (simp only: zq Py_def)
  have f7: "spec_screenToCanvas (mouseX p - rectLeft e, mouseY p - rectTop e)
              \<lparr>vp_offsetX = offsetX q, vp_offsetY = offsetY q, vp_zoom = zoom q\<rparr> =
           spec_screenToCanvas (mouseX p - rectLeft e, mouseY p - rectTop e)
              \<lparr>vp_offsetX = offsetX p, vp_offsetY = offsetY p, vp_zoom = zoom p\<rparr>"
    using anchor by (simp only: Px_def Py_def)
  from page f2 f3 f4 f5 f6 f7 show ?thesis by blast
qed

lemma pointerSeenState_page:
  "getCurrentPage pointerSeenState =
     Some ((defaultPage ''p1'')\<lparr>blocks := [], mouseX := 100, mouseY := 50\<rparr>)"
  by (simp add: pointerSeenState_def handler_defs example_defs Let_def)

text \<open>
  Claim C7, as amended. On a page whose zoom is not zero, a wheel event with ctrl held, or
  with cmd held and a \<open>deltaY\<close> of absolute value at least 50, sets the zoom to
  \<open>clamp(zoom + (-deltaY * 0.01), 0.1, 5)\<close>. When the pointer position recorded on the page
  is the position of the pointer at the event, the offset becomes
  \<open>pointerPos - (pointerPos - oldOffset) * (newZoom / oldZoom)\<close>, \<open>pointerPos\<close> being the
  position of the pointer relative to the viewport element, and the canvas point under the
  pointer is the same before and after. Nothing is said of the offset when the recorded
  position is not that of the pointer, nor of a wheel event with cmd, without ctrl and with
  a \<open>deltaY\<close> of absolute value below 50.
\<close>

theorem zoom_keeps_pointer_anchored:
  assumes "getCurrentPage s = Some p" and "zoom p \<noteq> 0"
    and "ctrlKey e \<or> (metaKey e \<and> \<bar>deltaY e\<bar> \<ge> 50)"
  shows "\<exists>q. getCurrentPage (onwheel s e) = Some q \<and>
           zoom q = max (1 / 10) (min 5 (zoom p + - deltaY e * (1 / 100))) \<and>
           1 / 10 \<le> zoom q \<and> zoom q \<le> 5 \<and>
           (mouseX p = wheel_clientX e \<longrightarrow>
              offsetX q = (wheel_clientX e - rectLeft e) -
                 ((wheel_clientX e - rectLeft e) - offsetX p) * (zoom q / zoom p)) \<and>
           (mouseY p = wheel_clientY e \<longrightarrow>
              offsetY q = (wheel_clientY e - rectTop e) -
                 ((wheel_clientY e - rectTop e) - offsetY p) * (zoom q / zoom p)) \<and>
           (mouseX p = wheel_clientX e \<and> mouseY p = wheel_clientY e \<longrightarrow>
              spec_screenToCanvas (wheel_clientX e - rectLeft e, wheel_clientY e - rectTop e)
                 \<lparr>vp_offsetX = offsetX q, vp_offsetY = offsetY q, vp_zoom = zoom q\<rparr> =
              spec_screenToCanvas (wheel_clientX e - rectLeft e, wheel_clientY e - rectTop e)
                 \<lparr>vp_offsetX = offsetX p, vp_offsetY = offsetY p, vp_zoom = zoom p\<rparr>)"
proof -
  from onwheel_zoom_recorded[OF assms] obtain q where
    page: "getCurrentPage (onwheel s e) = Some q"
    and z: "zoom q = max (1 / 10) (min 5 (zoom p + - deltaY e * (1 / 100)))"
    and lo: "1 / 10 \<le> zoom q" and hi: "zoom q \<le> 5"
    and ox: "offsetX q = (mouseX p - rectLeft e) - ((mouseX p - rectLeft e) - offsetX p) * (zoom q / zoom p)"
    and oy: "offsetY q = (mouseY p - rectTop e) - ((mouseY p - rectTop e) - offsetY p) * (zoom q / zoom p)"
    and an: "spec_screenToCanvas (mouseX p - rectLeft e, mouseY p - rectTop e)
              \<lparr>vp_offsetX = offsetX q, vp_offsetY = offsetY q, vp_zoom = zoom q\<rparr> =
           spec_screenToCanvas (mouseX p - rectLeft e, mouseY p - rectTop e)
              \<lparr>vp_offsetX = offsetX p, vp_offsetY = offsetY p, vp_zoom = zoom p\<rparr>"
    by blast
  have fx: "mouseX p = wheel_clientX e \<longrightarrow>
              offsetX q = (wheel_clientX e - rectLeft e) -
                 ((wheel_clientX e - rectLeft e) - offsetX p) * (zoom q / zoom p)"
    using ox by (simp only:) simp
  have fy: "mouseY p = wheel_clientY e \<longrightarrow>
              offsetY q = (wheel_clientY e - rectTop e) -
                 ((wheel_clientY e - rectTop e) - offsetY p) * (zoom q / zoom p)"
    using oy by (simp only:) simp
  have fa: "mouseX p = wheel_clientX e \<and> mouseY p = wheel_clientY e \<longrightarrow>
              spec_screenToCanvas (wheel_clientX e - rectLeft e, wheel_clientY e - rectTop e)
                 \<lparr>vp_offsetX = offsetX q, vp_offsetY = offsetY q, vp_zoom = zoom q\<rparr> =
              spec_screenToCanvas (wheel_clientX e - rectLeft e, wheel_clientY e - rectTop e)
                 \<lparr>vp_offsetX = offsetX p, vp_offsetY = offsetY p, vp_zoom = zoom p\<rparr>"
  proof
    assume "mouseX p = wheel_clientX e \<and> mouseY p = wheel_clientY e"
    then have "wheel_clientX e = mouseX p" and "wheel_clientY e = mouseY p" by simp_all
    then show "spec_screenToCanvas (wheel_clientX e - rectLeft e, wheel_clientY e - rectTop e)
                 \<lparr>vp_offsetX = offsetX q, vp_offsetY = offsetY q, vp_zoom = zoom q\<rparr> =
              spec_screenToCanvas (wheel_clientX e - rectLeft e, wheel_clientY e - rectTop e)
                 \<lparr>vp_offsetX = offsetX p, vp_offsetY = offsetY p, vp_zoom = zoom p\<rparr>"
      using an by (simp only:)
  qed
  from page z lo hi fx fy fa show ?thesis by blast
qed

text \<open>
  The pointer is seen at (100, 50) and the wheel turns there with ctrl held and
  \<open>deltaY = -100\<close>: the zoom goes from 1 to 2, the offset to (-100, -50), and the canvas
  point under the pointer stays (100, 50).
\<close>

theorem zoom_keeps_pointer_anchored_witness:
  "\<exists>q. getCurrentPage (onwheel pointerSeenState
           \<lparr>deltaX = 0, deltaY = - 100, ctrlKey = True, metaKey = False, rectLeft = 0, rectTop = 0,
            wheel_clientX = 100, wheel_clientY = 50\<rparr>) = Some q \<and>
        zoom q = 2 \<and> offsetX q = - 100 \<and> offsetY q = - 50 \<and>
        spec_screenToCanvas (100, 50) \<lparr>vp_offsetX = offsetX q, vp_offsetY = offsetY q, vp_zoom = zoom q\<rparr> =
        spec_screenToCanvas (100, 50) \<lparr>vp_offsetX = 0, vp_offsetY = 0, vp_zoom = 1\<rparr>"
proof -
  let ?e = "\<lparr>deltaX = 0, deltaY = - 100, ctrlKey = True, metaKey = False, rectLeft = 0, rectTop = 0,
            wheel_clientX = 100, wheel_clientY = 50\<rparr>"
  let ?p = "(defaultPage ''p1'')\<lparr>blocks := [], mouseX := 100, mouseY := 50\<rparr>"
  have 1: "getCurrentPage pointerSeenState = Some ?p" by (rule pointerSeenState_page)
  have 2: "zoom ?p \<noteq> 0" by (simp add: defaultPage_def)
  have 3: "ctrlKey ?e \<or> (metaKey ?e \<and> \<bar>deltaY ?e\<bar> \<ge> 50)" by simp
  from zoom_keeps_pointer_anchored[OF 1 2 3] obtain q where
    q: "getCurrentPage (onwheel pointerSeenState ?e) = Some q" and z: "zoom q = 2"
    and x: "offsetX q = 100 - 100 * zoom q" and y: "offsetY q = 50 - 50 * zoom q"
    and a: "spec_screenToCanvas (100, 50) \<lparr>vp_offsetX = offsetX q, vp_offsetY = offsetY q, vp_zoom = zoom q\<rparr> =
            spec_screenToCanvas (100, 50) \<lparr>vp_offsetX = 0, vp_offsetY = 0, vp_zoom = 1\<rparr>"
    by (auto simp: defaultPage_def)
  from x y z have xy: "offsetX q = - 100" "offsetY q = - 50" by simp_all
  from q z xy a show ?thesis by blast
qed

text \<open>
  Claim C7 as it is written fails at two inputs.

  A wheel event with cmd held, ctrl not held and \<open>deltaY = 10\<close> pans: the zoom stays 1,
  where the claim gives 0.9, and the offset moves by the deltas.

  On the page as it starts, with no pointer move seen yet, the recorded pointer position is
  (0, 0). The wheel turns with ctrl held and \<open>deltaY = -100\<close> while the pointer is at
  (100, 50): the zoom goes from 1 to 2 and the offset stays (0, 0), where the claim's
  formula gives (-100, -50), and the canvas point under the pointer goes from (100, 50) to
  (50, 25).
\<close>

theorem cmd_wheel_small_delta_pans:
  "map zoom (pages (onwheel pointerSeenState
      \<lparr>deltaX = 0, deltaY = 10, ctrlKey = False, metaKey = True, rectLeft = 0, rectTop = 0,
       wheel_clientX = 100, wheel_clientY = 50\<rparr>)) = [1] \<and>
   map offsetY (pages (onwheel pointerSeenState
      \<lparr>deltaX = 0, deltaY = 10, ctrlKey = False, metaKey = True, rectLeft = 0, rectTop = 0,
       wheel_clientX = 100, wheel_clientY = 50\<rparr>)) = [- 10] \<and>
   max (1 / 10) (min 5 (1 + - 10 * (1 / 100))) = (9 / 10 :: real) \<and>
   map zoom (pages (stateWithBlocks [])) = [1] \<and>
   map offsetX (pages (stateWithBlocks [])) = [0] \<and>
   map offsetY (pages (stateWithBlocks [])) = [0] \<and>
   map zoom (pages (onwheel (stateWithBlocks [])
      \<lparr>deltaX = 0, deltaY = - 100, ctrlKey = True, metaKey = False, rectLeft = 0, rectTop = 0,
       wheel_clientX = 100, wheel_clientY = 50\<rparr>)) = [2] \<and>
   map offsetX (pages (onwheel (stateWithBlocks [])
      \<lparr>deltaX = 0, deltaY = - 100, ctrlKey = True, metaKey = False, rectLeft = 0, rectTop = 0,
       wheel_clientX = 100, wheel_clientY = 50\<rparr>)) = [0] \<and>
   map offsetY (pages (onwheel (stateWithBlocks [])
      \<lparr>deltaX = 0, deltaY = - 100, ctrlKey = True, metaKey = False, rectLeft = 0, rectTop = 0,
       wheel_clientX = 100, wheel_clientY = 50\<rparr>)) = [0] \<and>
   (100 - (100 - 0) * (2 / 1), 50 - (50 - 0) * (2 / 1)) = (- 100 :: real, - 50 :: real) \<and>
   spec_screenToCanvas (100, 50) \<lparr>vp_offsetX = 0, vp_offsetY = 0, vp_zoom = 1\<rparr> = (100, 50) \<and>
   spec_screenToCanvas (100, 50) \<lparr>vp_offsetX = 0, vp_offsetY = 0, vp_zoom = 2\<rparr> = (50, 25)"
  by (simp add: pointerSeenState_def handler_defs example_defs Let_def spec_screenToCanvas_def)

section \<open>The marquee\<close>

lemma interval_meet:
  fixes a b c d :: real
  assumes "a \<le> b" and "c \<le> d"
  shows "(\<exists>x. a \<le> x \<and> x \<le> b \<and> c \<le> x \<and> x \<le> d) \<longleftrightarrow> \<not> (a > d \<or> b < c)"
proof
  assume "\<exists>x. a \<le> x \<and> x \<le> b \<and> c \<le> x \<and> x \<le> d"
  then show "\<not> (a > d \<or> b < c)" by auto
next
  assume h: "\<not> (a > d \<or> b < c)"
  have "a \<le> max a c \<and> max a c \<le> b \<and> c \<le> max a c \<and> max a c \<le> d"
    using assms h by auto
  then show "\<exists>x. a \<le> x \<and> x \<le> b \<and> c \<le> x \<and> x \<le> d" by blast
qed

lemma spec_rectsIntersect_test:
  assumes "blk_width b \<ge> 0" and "blk_height b \<ge> 0"
  shows "spec_rectsIntersect b box \<longleftrightarrow>
         \<not> (blk_x b > max (sb_startX box) (sb_currentX box) \<or>
            blk_x b + blk_width b < min (sb_startX box) (sb_currentX box) \<or>
            blk_y b > max (sb_startY box) (sb_currentY box) \<or>
            blk_y b + blk_height b < min (sb_startY box) (sb_currentY box))"
proof -
  let ?minX = "min (sb_startX box) (sb_currentX box)" and ?maxX = "max (sb_startX box) (sb_currentX box)"
  let ?minY = "min (sb_startY box) (sb_currentY box)" and ?maxY = "max (sb_startY box) (sb_currentY box)"
  have "spec_rectsIntersect b box \<longleftrightarrow>
        (\<exists>px. blk_x b \<le> px \<and> px \<le> blk_x b + blk_width b \<and> ?minX \<le> px \<and> px \<le> ?maxX) \<and>
        (\<exists>py. blk_y b \<le> py \<and> py \<le> blk_y b + blk_height b \<and> ?minY \<le> py \<and> py \<le> ?maxY)"
    unfolding spec_rectsIntersect_def by blast
  also have "\<dots> \<longleftrightarrow> \<not> (blk_x b > ?maxX \<or> blk_x b + blk_width b < ?minX) \<and>
                     \<not> (blk_y b > ?maxY \<or> blk_y b + blk_height b < ?minY)"
    using interval_meet[of "blk_x b" "blk_x b + blk_width b" ?minX ?maxX]
      interval_meet[of "blk_y b" "blk_y b + blk_height b" ?minY ?maxY] assms
    by simp
  finally show ?thesis by blast
qed

lemma set_js_set_spread [simp]: "set (js_set_spread xs) = set xs"
  by (simp add: js_set_spread_def)

lemma distinct_js_set_spread [simp]: "distinct (js_set_spread xs)"
  by (simp add: js_set_spread_def)

text \<open>
  Claim C8. On a page whose blocks have no negative width or height, the preview selection
  of a marquee holds the ids of exactly the blocks whose closed rectangle has a point in
  common with the closed rectangle of the marquee, so that touching edges count; with
  shift pressed the ids of the present selection are in it as well, without shift they
  are not kept.
\<close>

theorem marquee_selects_intersecting:
  assumes "getCurrentPage s = Some p"
    and "\<forall>b \<in> set (blocks p). blk_width b \<ge> 0 \<and> blk_height b \<ge> 0"
  shows "set (calculatePreviewSelection s box) =
           (if isShiftPressed s then set (selectedIds p) else {}) \<union>
           {blk_id b | b. b \<in> set (blocks p) \<and> spec_rectsIntersect b box}"
proof -
  have "{blk_id b | b. b \<in> set (blocks p) \<and> spec_rectsIntersect b box} =
        blk_id ` {b \<in> set (blocks p).
          \<not> (blk_x b > max (sb_startX box) (sb_currentX box) \<or>
            blk_x b + blk_width b < min (sb_startX box) (sb_currentX box) \<or>
            blk_y b > max (sb_startY box) (sb_currentY box) \<or>
            blk_y b + blk_height b < min (sb_startY box) (sb_currentY box))}"
    using assms(2) spec_rectsIntersect_test by blast
  then show ?thesis
    using assms(1)
    by (simp add: calculatePreviewSelection_def getCurrentBlocks_def Let_def)
qed

text \<open>
  The examples of the specification, and a marquee that only touches the corner (30, 30)
  of the block.
\<close>

theorem marquee_selects_intersecting_witness:
  "blk_width blockC \<ge> 0 \<and> blk_height blockC \<ge> 0 \<and>
   calculatePreviewSelection (stateWithBlocks [blockC]) (marqueeOf 0 0 15 15) = [7] \<and>
   spec_rectsIntersect blockC (marqueeOf 0 0 15 15) \<and>
   calculatePreviewSelection (stateWithBlocks [blockC]) (marqueeOf 100 100 10 10) = [] \<and>
   \<not> spec_rectsIntersect blockC (marqueeOf 100 100 10 10) \<and>
   calculatePreviewSelection (stateWithBlocks [blockC]) (marqueeOf 30 30 5 5) = [7] \<and>
   spec_rectsIntersect blockC (marqueeOf 30 30 5 5)"
proof -
  let ?s = "stateWithBlocks [blockC]"
  let ?p = "(defaultPage ''p1'')\<lparr>blocks := [blockC]\<rparr>"
  have 1: "getCurrentPage ?s = Some ?p"
    by (simp add: getCurrentPage_def example_defs)
  have 2: "\<forall>b \<in> set (blocks ?p). blk_width b \<ge> 0 \<and> blk_height b \<ge> 0"
    by (simp add: blockC_def)
  have c: "calculatePreviewSelection ?s (marqueeOf 0 0 15 15) = [7]"
    "calculatePreviewSelection ?s (marqueeOf 100 100 10 10) = []"
    "calculatePreviewSelection ?s (marqueeOf 30 30 5 5) = [7]"
    by (simp_all add: handler_defs example_defs blockC_def marqueeOf_def Let_def)
  have n: "\<not> isShiftPressed ?s" by (simp add: example_defs)
  from marquee_selects_intersecting[OF 1 2, of "marqueeOf 0 0 15 15"] c(1) n
  have a: "spec_rectsIntersect blockC (marqueeOf 0 0 15 15)" by auto
  from marquee_selects_intersecting[OF 1 2, of "marqueeOf 100 100 10 10"] c(2) n
  have b: "\<not> spec_rectsIntersect blockC (marqueeOf 100 100 10 10)" by auto
  from marquee_selects_intersecting[OF 1 2, of "marqueeOf 30 30 5 5"] c(3) n
  have d: "spec_rectsIntersect blockC (marqueeOf 30 30 5 5)" by auto
  from a b c d show ?thesis by (simp add: blockC_def)
qed

section \<open>The commit on pointer-up: lemmas\<close>






lemma onpointerup_no_page: "getCurrentPage s = None \<Longrightarrow> onpointerup s = s"
  by (simp add: onpointerup_def)



text \<open>Runs of events.\<close>

lemma run_events_Nil: "run_events [] s = s"
  by (simp add: run_events_def)

lemma run_events_Cons: "run_events (ev # es) s = run_events es (dispatch s ev)"
  by (simp add: run_events_def)


text \<open>The pointer-moves of a drag.\<close>

lemma shiftBlock_id [simp]: "blk_id (shiftBlock sel ax ay b) = blk_id b"
  by (simp add: shiftBlock_def)

lemma shiftBlock_zero [simp]: "shiftBlock sel 0 0 b = b"
  by (simp add: shiftBlock_def)

lemma map_shiftBlock_zero [simp]: "map (shiftBlock sel 0 0) bs = bs"
  by (rule map_idI) simp



lemma onpointermove_manager [simp]: "mementoManager (onpointermove t e) = mementoManager t"
  by (simp add: onpointermove_def handleBlockDrag_def handleViewportDrag_def handleSelectionBoxMove_def
      handleResizePointerMove_def Let_def case_prod_beta split: option.splits resize_id.splits)



lemma run_moves_manager [simp]:
  "mementoManager (run_events (map PointerMove ms) t) = mementoManager t"
  by (induction ms arbitrary: t) (simp_all add: run_events_Nil run_events_Cons)

text \<open>The pointer-moves of a resize, and of a gesture that neither drags nor resizes.\<close>

lemma sameButGeometry_refl [simp]: "sameButGeometry b b"
  by (simp add: sameButGeometry_def)



lemma sameButGeometry_update [simp]:
  "sameButGeometry b (b\<lparr>blk_x := x, blk_y := y, blk_width := w, blk_height := h\<rparr>)"
  by (simp add: sameButGeometry_def)

lemma resizedFrom_refl [simp]: "resizedFrom r b b"
  by (simp add: resizedFrom_def)


lemma list_all2_resizedFrom_refl [simp]: "list_all2 (resizedFrom r) bs bs"
  by (simp add: list_all2_same)


















text \<open>The pointer-up that ends the resize of a group.\<close>

lemma originalOf_simps [simp]:
  "orig_id (originalOf b) = blk_id b" "orig_x (originalOf b) = blk_x b"
  "orig_y (originalOf b) = blk_y b" "orig_width (originalOf b) = blk_width b"
  "orig_height (originalOf b) = blk_height b"
  by (simp_all add: originalOf_def)

lemma movedBeyondEpsilon_same [simp]: "\<not> movedBeyondEpsilon b b"
  by (simp add: movedBeyondEpsilon_def)

















section \<open>The commit on pointer-up\<close>






end
